theory Spec2Isabelle
  imports Complex_Main "HOL-Library.Word"
begin

unbundle bit_operations_syntax

section \<open>Operation transformation of stellar-etl: a shallow embedding\<close>

text \<open>
  The embedding follows \<^verbatim>\<open>internal/transform/operation.go\<close> (package \<^verbatim>\<open>transform\<close>):
  \<^verbatim>\<open>TransformOperation\<close>, \<^verbatim>\<open>extractOperationDetails\<close> and their helpers.

  Conventions.
  \<^item> Go's fixed-width integers are words: \<^verbatim>\<open>int32\<close>/\<^verbatim>\<open>uint32\<close> are \<open>32 word\<close>,
    \<^verbatim>\<open>int64\<close> is \<open>64 word\<close>; a signed comparison reads the word with \<open>sint\<close>, an
    unsigned one with \<open>unat\<close> or the order of words.
  \<^item> A Go slice is \<open>'a list option\<close>: \<open>None\<close> is the nil slice, \<open>Some []\<close> is
    an allocated empty slice. \<^verbatim>\<open>append\<close> on a nil slice allocates.
  \<^item> A Go pointer that may be nil is an \<open>option\<close>.
  \<^item> A Go function returning \<^verbatim>\<open>(T, error)\<close> returns a pair \<open>T \<times> error option\<close>, as the
    source does; a run that panics returns nothing, which is the outcome \<open>Panic\<close>.
  \<^item> Functions of packages that are not part of the repository (\<^verbatim>\<open>xdr\<close>,
    \<^verbatim>\<open>amount\<close>, \<^verbatim>\<open>strconv\<close>, \<^verbatim>\<open>base64\<close>, \<^verbatim>\<open>fmt\<close>) and whose result is only
    stored are fields of the record \<open>externals\<close>, a parameter of the model.
\<close>

subsection \<open>Integers, outcomes and errors\<close>

type_synonym int32 = "32 word"
type_synonym uint32 = "32 word"
type_synonym int64 = "64 word"

datatype panic =
    IndexOutOfRange string
  | NilPointerDereference
  | MustArm string

datatype 'a go = Panic panic | Returns 'a

datatype error =
    ExternalError string
  | Wrapf string error
  | ForOperation int32 int64 error
  | NegativeOperationType int32 int32 int64
  | CouldNotAccessResults
  | CouldNotAccessInfo string int32
  | CouldNotAccessResultBody int32
  | CouldNotAccessResultInfo string int32
  | InvalidBalanceId int32
  | CannotGetSponsoringAddress int32
  | UnknownOperationType int32

text \<open>The elements of a slice, where the nil slice has none.\<close>

definition elems :: "'a list option \<Rightarrow> 'a list" where
  "elems s = (case s of None \<Rightarrow> [] | Some xs \<Rightarrow> xs)"

text \<open>\<^verbatim>\<open>append(s, x)\<close>.\<close>

definition append_slice :: "'a list option \<Rightarrow> 'a \<Rightarrow> 'a list option" where
  "append_slice s x = Some (elems s @ [x])"

text \<open>\<^verbatim>\<open>s[i]\<close> for a signed 32-bit index: out of range is a run-time panic.\<close>

definition index_slice :: "string \<Rightarrow> 'a list \<Rightarrow> int \<Rightarrow> 'a go" where
  "index_slice what xs i =
     (if 0 \<le> i \<and> i < int (length xs) then Returns (xs ! nat i)
      else Panic (IndexOutOfRange what))"

subsection \<open>The decoded ledger data (package xdr)\<close>

datatype AccountId = AccountId string

datatype MuxedAccount =
    KeyTypeEd25519 string
  | KeyTypeMuxedEd25519 "64 word" string

fun ToAccountId :: "MuxedAccount \<Rightarrow> AccountId" where
  "ToAccountId (KeyTypeEd25519 k) = AccountId k"
| "ToAccountId (KeyTypeMuxedEd25519 i k) = AccountId k"

datatype AlphaNum = AlphaNum (AlphaNum_AssetCode: string) (AlphaNum_Issuer: AccountId)

datatype Asset = Asset (Asset_Type: int32) (Asset_AlphaNum4: "AlphaNum option")
  (Asset_AlphaNum12: "AlphaNum option")

definition AssetTypeAssetTypeNative :: int32 where
  "AssetTypeAssetTypeNative = 0"

definition AssetTypeAssetTypeCreditAlphanum4 :: int32 where
  "AssetTypeAssetTypeCreditAlphanum4 = 1"

definition AssetTypeAssetTypeCreditAlphanum12 :: int32 where
  "AssetTypeAssetTypeCreditAlphanum12 = 2"

datatype AssetCode = AssetCode4 string | AssetCode12 string

fun AssetCode_ToAsset :: "AssetCode \<Rightarrow> AccountId \<Rightarrow> Asset" where
  "AssetCode_ToAsset (AssetCode4 c) issuer =
     Asset AssetTypeAssetTypeCreditAlphanum4 (Some (AlphaNum c issuer)) None"
| "AssetCode_ToAsset (AssetCode12 c) issuer =
     Asset AssetTypeAssetTypeCreditAlphanum12 None (Some (AlphaNum c issuer))"

datatype XdrPrice = XdrPrice (Price_N: int32) (Price_D: int32)

datatype SignerKey = MkSignerKey string

datatype Signer = Signer (Signer_Key: SignerKey) (Signer_Weight: uint32)

datatype ClaimableBalanceId = ClaimableBalanceId string

datatype ClaimPredicate =
    ClaimPredicateUnconditional
  | ClaimPredicateAnd "ClaimPredicate list"
  | ClaimPredicateOr "ClaimPredicate list"
  | ClaimPredicateNot "ClaimPredicate option"
  | ClaimPredicateBeforeAbsoluteTime int64
  | ClaimPredicateBeforeRelativeTime int64

datatype ClaimantV0 = ClaimantV0 (ClaimantV0_Destination: AccountId)
  (ClaimantV0_Predicate: ClaimPredicate)

datatype XdrClaimant = XdrClaimant (Claimant_Type: int32) (Claimant_V0: "ClaimantV0 option")

datatype LedgerKeyAccount = LedgerKeyAccount (LedgerKeyAccount_AccountId: AccountId)

datatype LedgerKeyClaimableBalance =
  LedgerKeyClaimableBalance (LedgerKeyClaimableBalance_BalanceId: ClaimableBalanceId)

datatype LedgerKeyData = LedgerKeyData (LedgerKeyData_AccountId: AccountId)
  (LedgerKeyData_DataName: string)

datatype LedgerKeyOffer = LedgerKeyOffer (LedgerKeyOffer_SellerId: AccountId)
  (LedgerKeyOffer_OfferId: int64)

datatype LedgerKeyTrustLine = LedgerKeyTrustLine (LedgerKeyTrustLine_AccountId: AccountId)
  (LedgerKeyTrustLine_Asset: Asset)

datatype LedgerKey = LedgerKey (LedgerKey_Type: int32)
  (LedgerKey_Account: "LedgerKeyAccount option")
  (LedgerKey_ClaimableBalance: "LedgerKeyClaimableBalance option")
  (LedgerKey_Data: "LedgerKeyData option")
  (LedgerKey_Offer: "LedgerKeyOffer option")
  (LedgerKey_TrustLine: "LedgerKeyTrustLine option")

definition LedgerEntryTypeAccount :: int32 where "LedgerEntryTypeAccount = 0"
definition LedgerEntryTypeTrustline :: int32 where "LedgerEntryTypeTrustline = 1"
definition LedgerEntryTypeOffer :: int32 where "LedgerEntryTypeOffer = 2"
definition LedgerEntryTypeData :: int32 where "LedgerEntryTypeData = 3"
definition LedgerEntryTypeClaimableBalance :: int32 where "LedgerEntryTypeClaimableBalance = 4"

subsection \<open>Operations and their payloads\<close>

datatype CreateAccountOp = CreateAccountOp (CreateAccount_Destination: AccountId)
  (CreateAccount_StartingBalance: int64)

datatype PaymentOp = PaymentOp (Payment_Destination: MuxedAccount) (Payment_Asset: Asset)
  (Payment_Amount: int64)

datatype PathPaymentStrictReceiveOp = PathPaymentStrictReceiveOp
  (StrictReceive_SendAsset: Asset) (StrictReceive_SendMax: int64)
  (StrictReceive_Destination: MuxedAccount) (StrictReceive_DestAsset: Asset)
  (StrictReceive_DestAmount: int64) (StrictReceive_Path: "Asset list")

datatype PathPaymentStrictSendOp = PathPaymentStrictSendOp
  (StrictSend_SendAsset: Asset) (StrictSend_SendAmount: int64)
  (StrictSend_Destination: MuxedAccount) (StrictSend_DestAsset: Asset)
  (StrictSend_DestMin: int64) (StrictSend_Path: "Asset list")

datatype ManageBuyOfferOp = ManageBuyOfferOp (ManageBuy_Selling: Asset) (ManageBuy_Buying: Asset)
  (ManageBuy_BuyAmount: int64) (ManageBuy_Price: XdrPrice) (ManageBuy_OfferId: int64)

datatype ManageSellOfferOp = ManageSellOfferOp (ManageSell_Selling: Asset)
  (ManageSell_Buying: Asset) (ManageSell_Amount: int64) (ManageSell_Price: XdrPrice)
  (ManageSell_OfferId: int64)

datatype CreatePassiveSellOfferOp = CreatePassiveSellOfferOp (CreatePassive_Selling: Asset)
  (CreatePassive_Buying: Asset) (CreatePassive_Amount: int64) (CreatePassive_Price: XdrPrice)

datatype SetOptionsOp = SetOptionsOp
  (SetOptions_InflationDest: "AccountId option")
  (SetOptions_ClearFlags: "uint32 option")
  (SetOptions_SetFlags: "uint32 option")
  (SetOptions_MasterWeight: "uint32 option")
  (SetOptions_LowThreshold: "uint32 option")
  (SetOptions_MedThreshold: "uint32 option")
  (SetOptions_HighThreshold: "uint32 option")
  (SetOptions_HomeDomain: "string option")
  (SetOptions_Signer: "Signer option")

datatype ChangeTrustOp = ChangeTrustOp (ChangeTrust_Line: Asset) (ChangeTrust_Limit: int64)

datatype AllowTrustOp = AllowTrustOp (AllowTrust_Trustor: AccountId)
  (AllowTrust_Asset: AssetCode) (AllowTrust_Authorize: uint32)

datatype ManageDataOp = ManageDataOp (ManageData_DataName: string)
  (ManageData_DataValue: "string option")

datatype BumpSequenceOp = BumpSequenceOp (BumpSequence_BumpTo: int64)

datatype CreateClaimableBalanceOp = CreateClaimableBalanceOp
  (CreateClaimableBalance_Asset: Asset) (CreateClaimableBalance_Amount: int64)
  (CreateClaimableBalance_Claimants: "XdrClaimant list")

datatype ClaimClaimableBalanceOp =
  ClaimClaimableBalanceOp (ClaimClaimableBalance_BalanceId: ClaimableBalanceId)

datatype BeginSponsoringFutureReservesOp =
  BeginSponsoringFutureReservesOp (BeginSponsoring_SponsoredId: AccountId)

datatype RevokeSponsorshipOpSigner = RevokeSponsorshipOpSigner
  (RevokeSigner_AccountId: AccountId) (RevokeSigner_SignerKey: SignerKey)

datatype RevokeSponsorshipOp = RevokeSponsorshipOp (RevokeSponsorship_Type: int32)
  (RevokeSponsorship_LedgerKey: "LedgerKey option")
  (RevokeSponsorship_Signer: "RevokeSponsorshipOpSigner option")

definition RevokeSponsorshipTypeRevokeSponsorshipLedgerEntry :: int32 where
  "RevokeSponsorshipTypeRevokeSponsorshipLedgerEntry = 0"

definition RevokeSponsorshipTypeRevokeSponsorshipSigner :: int32 where
  "RevokeSponsorshipTypeRevokeSponsorshipSigner = 1"

datatype ClawbackOp = ClawbackOp (Clawback_Asset: Asset) (Clawback_From: MuxedAccount)
  (Clawback_Amount: int64)

datatype ClawbackClaimableBalanceOp =
  ClawbackClaimableBalanceOp (ClawbackClaimableBalance_BalanceId: ClaimableBalanceId)

datatype SetTrustLineFlagsOp = SetTrustLineFlagsOp (SetTrustLineFlags_Trustor: AccountId)
  (SetTrustLineFlags_Asset: Asset) (SetTrustLineFlags_ClearFlags: uint32)
  (SetTrustLineFlags_SetFlags: uint32)

text \<open>
  \<^verbatim>\<open>xdr.OperationBody\<close> is a union: a type tag and the payload it holds. The tag and
  the payload are kept apart, as in the Go struct, so that a body whose payload does not
  belong to its tag is a value of the type; \<open>ArmVoid\<close> is the payload of the kinds that
  carry none (inflation, end-sponsoring).
\<close>

datatype OperationBodyArm =
    ArmCreateAccountOp CreateAccountOp
  | ArmPaymentOp PaymentOp
  | ArmPathPaymentStrictReceiveOp PathPaymentStrictReceiveOp
  | ArmManageSellOfferOp ManageSellOfferOp
  | ArmCreatePassiveSellOfferOp CreatePassiveSellOfferOp
  | ArmSetOptionsOp SetOptionsOp
  | ArmChangeTrustOp ChangeTrustOp
  | ArmAllowTrustOp AllowTrustOp
  | ArmDestination MuxedAccount
  | ArmManageDataOp ManageDataOp
  | ArmBumpSequenceOp BumpSequenceOp
  | ArmManageBuyOfferOp ManageBuyOfferOp
  | ArmPathPaymentStrictSendOp PathPaymentStrictSendOp
  | ArmCreateClaimableBalanceOp CreateClaimableBalanceOp
  | ArmClaimClaimableBalanceOp ClaimClaimableBalanceOp
  | ArmBeginSponsoringFutureReservesOp BeginSponsoringFutureReservesOp
  | ArmRevokeSponsorshipOp RevokeSponsorshipOp
  | ArmClawbackOp ClawbackOp
  | ArmClawbackClaimableBalanceOp ClawbackClaimableBalanceOp
  | ArmSetTrustLineFlagsOp SetTrustLineFlagsOp
  | ArmVoid

datatype OperationBody = OperationBody (Body_Type: int32) (Body_Arm: OperationBodyArm)

datatype Operation = Operation (SourceAccount: "MuxedAccount option") (Body: OperationBody)

definition OperationTypeCreateAccount :: int32 where "OperationTypeCreateAccount = 0"
definition OperationTypePayment :: int32 where "OperationTypePayment = 1"
definition OperationTypePathPaymentStrictReceive :: int32 where
  "OperationTypePathPaymentStrictReceive = 2"
definition OperationTypeManageSellOffer :: int32 where "OperationTypeManageSellOffer = 3"
definition OperationTypeCreatePassiveSellOffer :: int32 where
  "OperationTypeCreatePassiveSellOffer = 4"
definition OperationTypeSetOptions :: int32 where "OperationTypeSetOptions = 5"
definition OperationTypeChangeTrust :: int32 where "OperationTypeChangeTrust = 6"
definition OperationTypeAllowTrust :: int32 where "OperationTypeAllowTrust = 7"
definition OperationTypeAccountMerge :: int32 where "OperationTypeAccountMerge = 8"
definition OperationTypeInflation :: int32 where "OperationTypeInflation = 9"
definition OperationTypeManageData :: int32 where "OperationTypeManageData = 10"
definition OperationTypeBumpSequence :: int32 where "OperationTypeBumpSequence = 11"
definition OperationTypeManageBuyOffer :: int32 where "OperationTypeManageBuyOffer = 12"
definition OperationTypePathPaymentStrictSend :: int32 where
  "OperationTypePathPaymentStrictSend = 13"
definition OperationTypeCreateClaimableBalance :: int32 where
  "OperationTypeCreateClaimableBalance = 14"
definition OperationTypeClaimClaimableBalance :: int32 where
  "OperationTypeClaimClaimableBalance = 15"
definition OperationTypeBeginSponsoringFutureReserves :: int32 where
  "OperationTypeBeginSponsoringFutureReserves = 16"
definition OperationTypeEndSponsoringFutureReserves :: int32 where
  "OperationTypeEndSponsoringFutureReserves = 17"
definition OperationTypeRevokeSponsorship :: int32 where "OperationTypeRevokeSponsorship = 18"
definition OperationTypeClawback :: int32 where "OperationTypeClawback = 19"
definition OperationTypeClawbackClaimableBalance :: int32 where
  "OperationTypeClawbackClaimableBalance = 20"
definition OperationTypeSetTrustLineFlags :: int32 where "OperationTypeSetTrustLineFlags = 21"

text \<open>
  The union's accessors. \<^verbatim>\<open>GetX()\<close> returns the payload and whether the body holds
  it; \<^verbatim>\<open>MustX()\<close> panics when it does not.
\<close>

definition GetCreateAccountOp :: "OperationBody \<Rightarrow> CreateAccountOp option" where
  "GetCreateAccountOp b = (case Body_Arm b of ArmCreateAccountOp x \<Rightarrow> Some x | _ \<Rightarrow> None)"

definition GetPaymentOp :: "OperationBody \<Rightarrow> PaymentOp option" where
  "GetPaymentOp b = (case Body_Arm b of ArmPaymentOp x \<Rightarrow> Some x | _ \<Rightarrow> None)"

definition GetPathPaymentStrictReceiveOp ::
  "OperationBody \<Rightarrow> PathPaymentStrictReceiveOp option" where
  "GetPathPaymentStrictReceiveOp b =
     (case Body_Arm b of ArmPathPaymentStrictReceiveOp x \<Rightarrow> Some x | _ \<Rightarrow> None)"

definition GetPathPaymentStrictSendOp :: "OperationBody \<Rightarrow> PathPaymentStrictSendOp option" where
  "GetPathPaymentStrictSendOp b =
     (case Body_Arm b of ArmPathPaymentStrictSendOp x \<Rightarrow> Some x | _ \<Rightarrow> None)"

definition GetManageBuyOfferOp :: "OperationBody \<Rightarrow> ManageBuyOfferOp option" where
  "GetManageBuyOfferOp b = (case Body_Arm b of ArmManageBuyOfferOp x \<Rightarrow> Some x | _ \<Rightarrow> None)"

definition GetManageSellOfferOp :: "OperationBody \<Rightarrow> ManageSellOfferOp option" where
  "GetManageSellOfferOp b = (case Body_Arm b of ArmManageSellOfferOp x \<Rightarrow> Some x | _ \<Rightarrow> None)"

definition GetCreatePassiveSellOfferOp :: "OperationBody \<Rightarrow> CreatePassiveSellOfferOp option" where
  "GetCreatePassiveSellOfferOp b =
     (case Body_Arm b of ArmCreatePassiveSellOfferOp x \<Rightarrow> Some x | _ \<Rightarrow> None)"

definition GetSetOptionsOp :: "OperationBody \<Rightarrow> SetOptionsOp option" where
  "GetSetOptionsOp b = (case Body_Arm b of ArmSetOptionsOp x \<Rightarrow> Some x | _ \<Rightarrow> None)"

definition GetChangeTrustOp :: "OperationBody \<Rightarrow> ChangeTrustOp option" where
  "GetChangeTrustOp b = (case Body_Arm b of ArmChangeTrustOp x \<Rightarrow> Some x | _ \<Rightarrow> None)"

definition GetAllowTrustOp :: "OperationBody \<Rightarrow> AllowTrustOp option" where
  "GetAllowTrustOp b = (case Body_Arm b of ArmAllowTrustOp x \<Rightarrow> Some x | _ \<Rightarrow> None)"

definition GetDestination :: "OperationBody \<Rightarrow> MuxedAccount option" where
  "GetDestination b = (case Body_Arm b of ArmDestination x \<Rightarrow> Some x | _ \<Rightarrow> None)"

definition GetManageDataOp :: "OperationBody \<Rightarrow> ManageDataOp option" where
  "GetManageDataOp b = (case Body_Arm b of ArmManageDataOp x \<Rightarrow> Some x | _ \<Rightarrow> None)"

definition GetBumpSequenceOp :: "OperationBody \<Rightarrow> BumpSequenceOp option" where
  "GetBumpSequenceOp b = (case Body_Arm b of ArmBumpSequenceOp x \<Rightarrow> Some x | _ \<Rightarrow> None)"

definition GetBeginSponsoringFutureReservesOp ::
  "OperationBody \<Rightarrow> BeginSponsoringFutureReservesOp option" where
  "GetBeginSponsoringFutureReservesOp b =
     (case Body_Arm b of ArmBeginSponsoringFutureReservesOp x \<Rightarrow> Some x | _ \<Rightarrow> None)"

definition MustCreateClaimableBalanceOp :: "OperationBody \<Rightarrow> CreateClaimableBalanceOp go" where
  "MustCreateClaimableBalanceOp b =
     (case Body_Arm b of ArmCreateClaimableBalanceOp x \<Rightarrow> Returns x
      | _ \<Rightarrow> Panic (MustArm ''CreateClaimableBalanceOp''))"

definition MustClaimClaimableBalanceOp :: "OperationBody \<Rightarrow> ClaimClaimableBalanceOp go" where
  "MustClaimClaimableBalanceOp b =
     (case Body_Arm b of ArmClaimClaimableBalanceOp x \<Rightarrow> Returns x
      | _ \<Rightarrow> Panic (MustArm ''ClaimClaimableBalanceOp''))"

definition MustBeginSponsoringFutureReservesOp ::
  "OperationBody \<Rightarrow> BeginSponsoringFutureReservesOp go" where
  "MustBeginSponsoringFutureReservesOp b =
     (case Body_Arm b of ArmBeginSponsoringFutureReservesOp x \<Rightarrow> Returns x
      | _ \<Rightarrow> Panic (MustArm ''BeginSponsoringFutureReservesOp''))"

definition MustRevokeSponsorshipOp :: "OperationBody \<Rightarrow> RevokeSponsorshipOp go" where
  "MustRevokeSponsorshipOp b =
     (case Body_Arm b of ArmRevokeSponsorshipOp x \<Rightarrow> Returns x
      | _ \<Rightarrow> Panic (MustArm ''RevokeSponsorshipOp''))"

definition MustClawbackOp :: "OperationBody \<Rightarrow> ClawbackOp go" where
  "MustClawbackOp b =
     (case Body_Arm b of ArmClawbackOp x \<Rightarrow> Returns x | _ \<Rightarrow> Panic (MustArm ''ClawbackOp''))"

definition MustClawbackClaimableBalanceOp ::
  "OperationBody \<Rightarrow> ClawbackClaimableBalanceOp go" where
  "MustClawbackClaimableBalanceOp b =
     (case Body_Arm b of ArmClawbackClaimableBalanceOp x \<Rightarrow> Returns x
      | _ \<Rightarrow> Panic (MustArm ''ClawbackClaimableBalanceOp''))"

definition MustSetTrustLineFlagsOp :: "OperationBody \<Rightarrow> SetTrustLineFlagsOp go" where
  "MustSetTrustLineFlagsOp b =
     (case Body_Arm b of ArmSetTrustLineFlagsOp x \<Rightarrow> Returns x
      | _ \<Rightarrow> Panic (MustArm ''SetTrustLineFlagsOp''))"

definition MustV0 :: "XdrClaimant \<Rightarrow> ClaimantV0 go" where
  "MustV0 c = (case Claimant_V0 c of Some v \<Rightarrow> Returns v | None \<Rightarrow> Panic (MustArm ''V0''))"

subsection \<open>Transactions and execution results\<close>

text \<open>
  An execution result is represented by what the code reads of it:
  \<^verbatim>\<open>SendAmount()\<close> of a strict-receive result and \<^verbatim>\<open>DestAmount()\<close> of a strict-send
  result.
\<close>

datatype PathPaymentStrictReceiveResult =
  PathPaymentStrictReceiveResult (SendAmount: int64)

datatype PathPaymentStrictSendResult =
  PathPaymentStrictSendResult (DestAmount: int64)

datatype OperationResultTr =
    TrPathPaymentStrictReceiveResult PathPaymentStrictReceiveResult
  | TrPathPaymentStrictSendResult PathPaymentStrictSendResult
  | TrOther int32

datatype OperationResult = OperationResult (GetTr: "OperationResultTr option")

definition GetPathPaymentStrictReceiveResult ::
  "OperationResultTr \<Rightarrow> PathPaymentStrictReceiveResult option" where
  "GetPathPaymentStrictReceiveResult tr =
     (case tr of TrPathPaymentStrictReceiveResult r \<Rightarrow> Some r | _ \<Rightarrow> None)"

definition GetPathPaymentStrictSendResult ::
  "OperationResultTr \<Rightarrow> PathPaymentStrictSendResult option" where
  "GetPathPaymentStrictSendResult tr =
     (case tr of TrPathPaymentStrictSendResult r \<Rightarrow> Some r | _ \<Rightarrow> None)"

text \<open>
  \<^verbatim>\<open>ingest.LedgerTransaction\<close>, reduced to what the transformation reads: the index of
  the transaction in its ledger, the envelope's source account and operations, and of the
  result whether it is successful and the per-operation results, \<open>None\<close> where
  \<^verbatim>\<open>OperationResults()\<close> reports that there are none.
\<close>

datatype TransactionEnvelope = TransactionEnvelope
  (Envelope_SourceAccount: MuxedAccount) (Operations: "Operation list")

datatype TransactionResultPair = TransactionResultPair
  (Successful: bool) (OperationResults: "OperationResult list option")

datatype LedgerTransaction = LedgerTransaction
  (Index: uint32) (Envelope: TransactionEnvelope) (Result: TransactionResultPair)

subsection \<open>The output records\<close>

datatype Path = MkPath (Path_AssetType: string) (Path_AssetIssuer: string)
  (Path_AssetCode: string)

datatype Price = MkPrice (Numerator: int32) (Denominator: int32)

datatype Claimant = Claimant (Claimant_Destination: string) (Claimant_Predicate: ClaimPredicate)

text \<open>
  \<^verbatim>\<open>Details\<close>: the fields that \<^verbatim>\<open>operation.go\<close> writes. Amounts and the price are
  the rational value of the number stored.
\<close>

record Details =
  Account :: string
  AccountID :: string
  Amount :: rat
  AssetCode :: string
  AssetIssuer :: string
  AssetType :: string
  Authorize :: bool
  BalanceID :: string
  BeginSponsor :: string
  BumpTo :: string
  BuyingAssetCode :: string
  BuyingAssetIssuer :: string
  BuyingAssetType :: string
  ClaimableBalanceID :: string
  Claimants :: "Claimant list option"
  ClearFlags :: "int32 list option"
  ClearFlagsString :: "string list option"
  DataAccountID :: string
  DataName :: string
  DestinationMin :: string
  From :: string
  Funder :: string
  HighThreshold :: uint32
  HomeDomain :: string
  InflationDest :: string
  Into :: string
  Limit :: rat
  LowThreshold :: uint32
  MasterKeyWeight :: uint32
  MedThreshold :: uint32
  Name :: string
  OfferID :: int64
  Path :: "Path list option"
  Price :: rat
  PriceR :: Price
  SellingAssetCode :: string
  SellingAssetIssuer :: string
  SellingAssetType :: string
  SetFlags :: "int32 list option"
  SetFlagsString :: "string list option"
  SignerAccountID :: string
  SignerKey :: string
  SignerWeight :: uint32
  SourceAmount :: rat
  SourceAssetCode :: string
  SourceAssetIssuer :: string
  SourceAssetType :: string
  SourceMax :: rat
  SponsoredID :: string
  StartingBalance :: rat
  To :: string
  Trustee :: string
  TrustlineAccountID :: string
  TrustlineAsset :: string
  Trustor :: string
  Value :: string

text \<open>\<^verbatim>\<open>Details{}\<close>, the zero value.\<close>

definition Details_zero :: Details where
  "Details_zero = \<lparr>
     Account = [], AccountID = [], Amount = 0, AssetCode = [], AssetIssuer = [],
     AssetType = [], Authorize = False, BalanceID = [], BeginSponsor = [], BumpTo = [],
     BuyingAssetCode = [], BuyingAssetIssuer = [], BuyingAssetType = [],
     ClaimableBalanceID = [], Claimants = None, ClearFlags = None, ClearFlagsString = None,
     DataAccountID = [], DataName = [], DestinationMin = [], From = [], Funder = [],
     HighThreshold = 0, HomeDomain = [], InflationDest = [], Into = [], Limit = 0,
     LowThreshold = 0, MasterKeyWeight = 0, MedThreshold = 0, Name = [], OfferID = 0,
     Path = None, Price = 0, PriceR = MkPrice 0 0, SellingAssetCode = [],
     SellingAssetIssuer = [], SellingAssetType = [], SetFlags = None, SetFlagsString = None,
     SignerAccountID = [], SignerKey = [], SignerWeight = 0, SourceAmount = 0,
     SourceAssetCode = [], SourceAssetIssuer = [], SourceAssetType = [], SourceMax = 0,
     SponsoredID = [], StartingBalance = 0, To = [], Trustee = [], TrustlineAccountID = [],
     TrustlineAsset = [], Trustor = [], Value = [] \<rparr>"

record OperationOutput =
  SourceAccount_out :: string
  Type :: int32
  ApplicationOrder :: int32
  TransactionID :: int64
  OperationID :: int64
  OperationDetails :: Details

text \<open>\<^verbatim>\<open>OperationOutput{}\<close>, the zero value.\<close>

definition OperationOutput_zero :: OperationOutput where
  "OperationOutput_zero = \<lparr> SourceAccount_out = [], Type = 0, ApplicationOrder = 0,
     TransactionID = 0, OperationID = 0, OperationDetails = Details_zero \<rparr>"

datatype SponsorshipOutput = SponsorshipOutput
  (Sponsorship_Operation: Operation) (Sponsorship_OperationIndex: uint32)

subsection \<open>What the code calls outside the sources at hand\<close>

text \<open>
  The calls into the decoder (\<^verbatim>\<open>xdr\<close>), the standard library and
  \<^verbatim>\<open>utils.GetAccountAddressFromMuxedAccount\<close>, taken as parameters. A call whose Go
  signature returns an error returns a sum here. \<open>ParsePrice\<close> stands for
  \<^verbatim>\<open>strconv.ParseFloat(price.String(), 64)\<close>. The two widths are those of the
  transaction and operation fields of the identifier (see \<open>toid_ToInt64\<close> below).
\<close>

record externals =
  GetAccountAddressFromMuxedAccount :: "MuxedAccount \<Rightarrow> error + string"
  AccountId_Address :: "AccountId \<Rightarrow> string"
  SignerKey_Address :: "SignerKey \<Rightarrow> string"
  Asset_Extract :: "Asset \<Rightarrow> error + (string \<times> string \<times> string)"
  Asset_StringCanonical :: "Asset \<Rightarrow> string"
  MarshalHex :: "ClaimableBalanceId \<Rightarrow> error + string"
  ParsePrice :: "XdrPrice \<Rightarrow> error + rat"
  amount_String :: "int64 \<Rightarrow> string"
  base64_EncodeToString :: "string \<Rightarrow> string"
  Sprintf_d :: "int64 \<Rightarrow> string"
  toid_TransactionBits :: nat
  toid_OperationBits :: nat

text \<open>
  Modelled from the spec: \<^verbatim>\<open>utils.ConvertStroopValueToReal\<close> (package
  \<^verbatim>\<open>internal/utils\<close>) is not among the sources. The spec: native amounts are integers
  scaled by 10^7 (stroops); converting to decimal divides by 10^7 using exact
  decimal/rational arithmetic.
\<close>

definition ConvertStroopValueToReal :: "int64 \<Rightarrow> rat" where
  "ConvertStroopValueToReal input = of_int (sint input) / 10000000"

text \<open>
  Modelled from the spec: \<^verbatim>\<open>toid.New(ledger, tx, op).ToInt64()\<close> (package
  \<^verbatim>\<open>internal/toid\<close>) is not among the sources. The spec: a 64-bit value packing
  (ledger sequence, transaction index in ledger, operation index in transaction + 1), whose
  numeric order is the ledger application order. The spec does not give the widths of the
  fields: the operation field is the low \<open>ob\<close> bits, the transaction field the next
  \<open>tb\<close> bits, the ledger sequence the bits above; a field keeps the low bits of its
  value.
\<close>

definition toid_ToInt64 :: "nat \<Rightarrow> nat \<Rightarrow> int32 \<Rightarrow> int32 \<Rightarrow> int32 \<Rightarrow> int64" where
  "toid_ToInt64 tb ob ledger tx opn =
     word_of_int (sint ledger * 2 ^ (tb + ob) + (uint tx mod 2 ^ tb) * 2 ^ ob
                    + uint opn mod 2 ^ ob)"

definition toid :: "externals \<Rightarrow> int32 \<Rightarrow> int32 \<Rightarrow> int32 \<Rightarrow> int64" where
  "toid env ledger tx opn =
     toid_ToInt64 (toid_TransactionBits env) (toid_OperationBits env) ledger tx opn"

subsection \<open>Helpers of the transformation\<close>

definition getOperationSourceAccount :: "Operation \<Rightarrow> LedgerTransaction \<Rightarrow> MuxedAccount" where
  "getOperationSourceAccount operation transaction =
     (case SourceAccount operation of
        Some sourceAccount \<Rightarrow> sourceAccount
      | None \<Rightarrow> Envelope_SourceAccount (Envelope transaction))"

text \<open>
  \<^verbatim>\<open>addAssetDetailsToOperationDetails\<close> writes through a pointer and returns an error:
  the model returns the record (unchanged when extraction fails) and the error.
\<close>

definition addAssetDetailsToOperationDetails ::
  "externals \<Rightarrow> Details \<Rightarrow> Asset \<Rightarrow> string \<Rightarrow> Details \<times> error option" where
  "addAssetDetailsToOperationDetails env operationDetails asset prefix =
     (case Asset_Extract env asset of
        Inl err \<Rightarrow> (operationDetails, Some err)
      | Inr (assetType, code, issuer) \<Rightarrow>
          (if prefix = ''buying'' then
             (let d = operationDetails\<lparr>BuyingAssetType := assetType\<rparr>
              in if Asset_Type asset \<noteq> AssetTypeAssetTypeNative
                 then d\<lparr>BuyingAssetIssuer := issuer, BuyingAssetCode := code\<rparr> else d)
           else if prefix = ''selling'' then
             (let d = operationDetails\<lparr>SellingAssetType := assetType\<rparr>
              in if Asset_Type asset \<noteq> AssetTypeAssetTypeNative
                 then d\<lparr>SellingAssetIssuer := issuer, SellingAssetCode := code\<rparr> else d)
           else if prefix = ''source'' then
             (let d = operationDetails\<lparr>SourceAssetType := assetType\<rparr>
              in if Asset_Type asset \<noteq> AssetTypeAssetTypeNative
                 then d\<lparr>SourceAssetIssuer := issuer, SourceAssetCode := code\<rparr> else d)
           else
             (let d = operationDetails\<lparr>AssetType := assetType\<rparr>
              in if Asset_Type asset \<noteq> AssetTypeAssetTypeNative
                 then d\<lparr>AssetIssuer := issuer, AssetCode := code\<rparr> else d),
           None))"

text \<open>The trust line flags of the protocol and the decoder's tests of them.\<close>

definition TrustLineFlagsAuthorizedFlag :: int32 where
  "TrustLineFlagsAuthorizedFlag = 1"

definition TrustLineFlagsAuthorizedToMaintainLiabilitiesFlag :: int32 where
  "TrustLineFlagsAuthorizedToMaintainLiabilitiesFlag = 2"

definition TrustLineFlagsTrustlineClawbackEnabledFlag :: int32 where
  "TrustLineFlagsTrustlineClawbackEnabledFlag = 4"

definition IsAuthorized :: "int32 \<Rightarrow> bool" where
  "IsAuthorized e = (e AND TrustLineFlagsAuthorizedFlag \<noteq> 0)"

definition IsAuthorizedToMaintainLiabilitiesFlag :: "int32 \<Rightarrow> bool" where
  "IsAuthorizedToMaintainLiabilitiesFlag e =
     (e AND TrustLineFlagsAuthorizedToMaintainLiabilitiesFlag \<noteq> 0)"

definition IsClawbackEnabledFlag :: "int32 \<Rightarrow> bool" where
  "IsClawbackEnabledFlag e = (e AND TrustLineFlagsTrustlineClawbackEnabledFlag \<noteq> 0)"

definition addTrustLineFlagToDetails :: "Details \<Rightarrow> int32 \<Rightarrow> string \<Rightarrow> Details" where
  "addTrustLineFlagToDetails operationDetails f prefix =
     (let n0 = None; s0 = None;
          n1 = (if IsAuthorized f then append_slice n0 TrustLineFlagsAuthorizedFlag else n0);
          s1 = (if IsAuthorized f then append_slice s0 ''authorized'' else s0);
          n2 = (if IsAuthorizedToMaintainLiabilitiesFlag f
                then append_slice n1 TrustLineFlagsAuthorizedToMaintainLiabilitiesFlag else n1);
          s2 = (if IsAuthorizedToMaintainLiabilitiesFlag f
                then append_slice s1 ''authorized_to_maintain_liabilities'' else s1);
          n = (if IsClawbackEnabledFlag f
               then append_slice n2 TrustLineFlagsTrustlineClawbackEnabledFlag else n2);
          s = (if IsClawbackEnabledFlag f then append_slice s2 ''clawback_enabled'' else s2)
      in if prefix = ''set'' then operationDetails\<lparr>SetFlags := n, SetFlagsString := s\<rparr>
         else if prefix = ''clear''
         then operationDetails\<lparr>ClearFlags := n, ClearFlagsString := s\<rparr>
         else operationDetails)"

text \<open>The account flags of the protocol.\<close>

definition AccountFlagsAuthRequiredFlag :: int32 where
  "AccountFlagsAuthRequiredFlag = 1"

definition AccountFlagsAuthRevocableFlag :: int32 where
  "AccountFlagsAuthRevocableFlag = 2"

definition AccountFlagsAuthImmutableFlag :: int32 where
  "AccountFlagsAuthImmutableFlag = 4"

text \<open>
  \<^verbatim>\<open>(int64(flag) & int64(c)) > 0\<close>: the unsigned 32-bit mask is zero-extended, the
  signed constant sign-extended, and the comparison is signed.
\<close>

definition flag_test :: "uint32 \<Rightarrow> int32 \<Rightarrow> bool" where
  "flag_test flag c = (0 < sint ((ucast flag :: int64) AND (scast c :: int64)))"

definition addOperationFlagToOperationDetails :: "Details \<Rightarrow> uint32 \<Rightarrow> string \<Rightarrow> Details" where
  "addOperationFlagToOperationDetails operationDetails flag prefix =
     (let intFlags0 = Some []; stringFlags0 = Some [];
          intFlags1 = (if flag_test flag AccountFlagsAuthRequiredFlag
                       then append_slice intFlags0 AccountFlagsAuthRequiredFlag else intFlags0);
          stringFlags1 = (if flag_test flag AccountFlagsAuthRequiredFlag
                          then append_slice stringFlags0 ''auth_required'' else stringFlags0);
          intFlags2 = (if flag_test flag AccountFlagsAuthRevocableFlag
                       then append_slice intFlags1 AccountFlagsAuthRevocableFlag else intFlags1);
          stringFlags2 = (if flag_test flag AccountFlagsAuthRevocableFlag
                          then append_slice stringFlags1 ''auth_revocable'' else stringFlags1);
          intFlags = (if flag_test flag AccountFlagsAuthImmutableFlag
                      then append_slice intFlags2 AccountFlagsAuthImmutableFlag else intFlags2);
          stringFlags = (if flag_test flag AccountFlagsAuthImmutableFlag
                         then append_slice stringFlags2 ''auth_immutable'' else stringFlags2)
      in if prefix = ''set''
         then operationDetails\<lparr>SetFlags := intFlags, SetFlagsString := stringFlags\<rparr>
         else if prefix = ''clear''
         then operationDetails\<lparr>ClearFlags := intFlags, ClearFlagsString := stringFlags\<rparr>
         else operationDetails)"

text \<open>
  \<^verbatim>\<open>addLedgerKeyToDetails\<close> reads the key's payload through a pointer of the union:
  a payload that is not there is a nil dereference.
\<close>

definition addLedgerKeyToDetails ::
  "externals \<Rightarrow> Details \<Rightarrow> LedgerKey \<Rightarrow> (Details \<times> error option) go" where
  "addLedgerKeyToDetails env operationDetails ledgerKey =
     (if LedgerKey_Type ledgerKey = LedgerEntryTypeAccount then
        (case LedgerKey_Account ledgerKey of
           None \<Rightarrow> Panic NilPointerDereference
         | Some k \<Rightarrow> Returns (operationDetails
             \<lparr>AccountID := AccountId_Address env (LedgerKeyAccount_AccountId k)\<rparr>, None))
      else if LedgerKey_Type ledgerKey = LedgerEntryTypeClaimableBalance then
        (case LedgerKey_ClaimableBalance ledgerKey of
           None \<Rightarrow> Panic NilPointerDereference
         | Some k \<Rightarrow>
             (case MarshalHex env (LedgerKeyClaimableBalance_BalanceId k) of
                Inl err \<Rightarrow> Returns (operationDetails, Some (Wrapf ''in claimable balance'' err))
              | Inr marshalHex \<Rightarrow>
                  Returns (operationDetails\<lparr>ClaimableBalanceID := marshalHex\<rparr>, None)))
      else if LedgerKey_Type ledgerKey = LedgerEntryTypeData then
        (case LedgerKey_Data ledgerKey of
           None \<Rightarrow> Panic NilPointerDereference
         | Some k \<Rightarrow> Returns (operationDetails
             \<lparr>DataAccountID := AccountId_Address env (LedgerKeyData_AccountId k),
              DataName := LedgerKeyData_DataName k\<rparr>, None))
      else if LedgerKey_Type ledgerKey = LedgerEntryTypeOffer then
        (case LedgerKey_Offer ledgerKey of
           None \<Rightarrow> Panic NilPointerDereference
         | Some k \<Rightarrow> Returns (operationDetails\<lparr>OfferID := LedgerKeyOffer_OfferId k\<rparr>, None))
      else if LedgerKey_Type ledgerKey = LedgerEntryTypeTrustline then
        (case LedgerKey_TrustLine ledgerKey of
           None \<Rightarrow> Panic NilPointerDereference
         | Some k \<Rightarrow> Returns (operationDetails
             \<lparr>TrustlineAccountID := AccountId_Address env (LedgerKeyTrustLine_AccountId k),
              TrustlineAsset := Asset_StringCanonical env (LedgerKeyTrustLine_Asset k)\<rparr>, None))
      else Returns (operationDetails, None))"

text \<open>
  The loop of \<^verbatim>\<open>transformPath\<close>: \<open>path\<close> is the slice built so far; an asset that
  cannot be extracted makes the function return nil.
\<close>

fun transformPath_loop :: "externals \<Rightarrow> Path list option \<Rightarrow> Asset list \<Rightarrow> Path list option" where
  "transformPath_loop env path [] = path"
| "transformPath_loop env path (pathAsset # rest) =
     (case Asset_Extract env pathAsset of
        Inl err \<Rightarrow> None
      | Inr (assetType, code, issuer) \<Rightarrow>
          transformPath_loop env (append_slice path (MkPath assetType issuer code)) rest)"

definition transformPath :: "externals \<Rightarrow> Asset list \<Rightarrow> Path list option" where
  "transformPath env initialPath =
     (if length initialPath = 0 then None
      else transformPath_loop env (Some []) initialPath)"

text \<open>
  The loop of \<^verbatim>\<open>findInitatingBeginSponsoringOp\<close>,
  \<^verbatim>\<open>for i := int(operationIndex) - 1; i >= 0; i--\<close>: the argument \<open>Suc i\<close> is one
  more than the loop variable, \<open>0\<close> is the exit.
\<close>

fun findInitatingBeginSponsoringOp_loop ::
  "externals \<Rightarrow> Operation list \<Rightarrow> AccountId \<Rightarrow> nat \<Rightarrow> SponsorshipOutput option go" where
  "findInitatingBeginSponsoringOp_loop env operations sponsoree 0 = Returns None"
| "findInitatingBeginSponsoringOp_loop env operations sponsoree (Suc i) =
     (case index_slice ''operations'' operations (int i) of
        Panic p \<Rightarrow> Panic p
      | Returns operation_i \<Rightarrow>
          (case GetBeginSponsoringFutureReservesOp (Body operation_i) of
             Some beginOp \<Rightarrow>
               (if AccountId_Address env (BeginSponsoring_SponsoredId beginOp)
                     = AccountId_Address env sponsoree
                then Returns (Some (SponsorshipOutput operation_i (of_nat i)))
                else findInitatingBeginSponsoringOp_loop env operations sponsoree i)
           | None \<Rightarrow> findInitatingBeginSponsoringOp_loop env operations sponsoree i))"

definition findInitatingBeginSponsoringOp ::
  "externals \<Rightarrow> Operation \<Rightarrow> int32 \<Rightarrow> LedgerTransaction \<Rightarrow> SponsorshipOutput option go" where
  "findInitatingBeginSponsoringOp env operation operationIndex transaction =
     (if \<not> Successful (Result transaction) then Returns None
      else
        (let sponsoree = ToAccountId (getOperationSourceAccount operation transaction);
             operations = Operations (Envelope transaction)
         in findInitatingBeginSponsoringOp_loop env operations sponsoree
              (nat (sint operationIndex))))"

definition ensureSlicesAreNotNil :: "Details \<Rightarrow> Details" where
  "ensureSlicesAreNotNil details =
     (let d1 = (if Path details = None then details\<lparr>Path := Some []\<rparr> else details);
          d2 = (if SetFlags d1 = None then d1\<lparr>SetFlags := Some []\<rparr> else d1);
          d3 = (if SetFlagsString d2 = None then d2\<lparr>SetFlagsString := Some []\<rparr> else d2);
          d4 = (if ClearFlags d3 = None then d3\<lparr>ClearFlags := Some []\<rparr> else d3)
      in if ClearFlagsString d4 = None then d4\<lparr>ClearFlagsString := Some []\<rparr> else d4)"

subsection \<open>The arms of the switch in extractOperationDetails\<close>

text \<open>
  Each \<^verbatim>\<open>case\<close> of the switch is a definition named after its operation kind. It
  receives what the function has computed before the switch and returns what the function
  returns if the arm returns early, or the record that falls through to
  \<^verbatim>\<open>ensureSlicesAreNotNil\<close>, with no error.
\<close>

definition arm_CreateAccount ::
  "externals \<Rightarrow> Operation \<Rightarrow> int32 \<Rightarrow> string \<Rightarrow> Details \<Rightarrow> (Details \<times> error option) go" where
  "arm_CreateAccount env operation operationIndex sourceAccountAddress outputDetails =
     (case GetCreateAccountOp (Body operation) of
        None \<Rightarrow> Returns (Details_zero, Some (CouldNotAccessInfo ''CreateAccount'' operationIndex))
      | Some op \<Rightarrow> Returns (outputDetails
          \<lparr>Funder := sourceAccountAddress,
           Account := AccountId_Address env (CreateAccount_Destination op),
           StartingBalance := ConvertStroopValueToReal (CreateAccount_StartingBalance op)\<rparr>,
          None))"

definition arm_Payment ::
  "externals \<Rightarrow> Operation \<Rightarrow> int32 \<Rightarrow> string \<Rightarrow> Details \<Rightarrow> (Details \<times> error option) go" where
  "arm_Payment env operation operationIndex sourceAccountAddress outputDetails =
     (case GetPaymentOp (Body operation) of
        None \<Rightarrow> Returns (Details_zero, Some (CouldNotAccessInfo ''Payment'' operationIndex))
      | Some op \<Rightarrow>
          (case GetAccountAddressFromMuxedAccount env (Payment_Destination op) of
             Inl err \<Rightarrow> Returns (Details_zero, Some err)
           | Inr toAccountAddress \<Rightarrow>
               (case addAssetDetailsToOperationDetails env
                       (outputDetails\<lparr>From := sourceAccountAddress, To := toAccountAddress,
                          Amount := ConvertStroopValueToReal (Payment_Amount op)\<rparr>)
                       (Payment_Asset op) [] of
                  (d, Some err) \<Rightarrow> Returns (Details_zero, Some err)
                | (d, None) \<Rightarrow> Returns (d, None))))"

definition arm_PathPaymentStrictReceive ::
  "externals \<Rightarrow> Operation \<Rightarrow> LedgerTransaction \<Rightarrow> int32 \<Rightarrow> string \<Rightarrow> OperationResult \<Rightarrow>
     Details \<Rightarrow> (Details \<times> error option) go" where
  "arm_PathPaymentStrictReceive env operation transaction operationIndex sourceAccountAddress
     currentOperationResult outputDetails =
     (case GetPathPaymentStrictReceiveOp (Body operation) of
        None \<Rightarrow> Returns (Details_zero,
                  Some (CouldNotAccessInfo ''PathPaymentStrictReceive'' operationIndex))
      | Some op \<Rightarrow>
          (case GetAccountAddressFromMuxedAccount env (StrictReceive_Destination op) of
             Inl err \<Rightarrow> Returns (Details_zero, Some err)
           | Inr toAccountAddress \<Rightarrow>
               (let d1 = outputDetails\<lparr>From := sourceAccountAddress, To := toAccountAddress,
                           Amount := ConvertStroopValueToReal (StrictReceive_DestAmount op),
                           SourceMax := ConvertStroopValueToReal (StrictReceive_SendMax op)\<rparr>;
                    d2 = fst (addAssetDetailsToOperationDetails env d1
                                (StrictReceive_DestAsset op) []);
                    d3 = fst (addAssetDetailsToOperationDetails env d2
                                (StrictReceive_SendAsset op) ''source'')
                in if Successful (Result transaction) then
                     (case GetTr currentOperationResult of
                        None \<Rightarrow> Returns (Details_zero,
                                  Some (CouldNotAccessResultBody operationIndex))
                      | Some resultBody \<Rightarrow>
                          (case GetPathPaymentStrictReceiveResult resultBody of
                             None \<Rightarrow> Returns (Details_zero,
                                       Some (CouldNotAccessResultInfo
                                               ''PathPaymentStrictReceive'' operationIndex))
                           | Some result \<Rightarrow> Returns (d3
                               \<lparr>SourceAmount := ConvertStroopValueToReal (SendAmount result),
                                Path := transformPath env (StrictReceive_Path op)\<rparr>, None)))
                   else Returns (d3\<lparr>Path := transformPath env (StrictReceive_Path op)\<rparr>,
                                 None))))"

definition arm_PathPaymentStrictSend ::
  "externals \<Rightarrow> Operation \<Rightarrow> LedgerTransaction \<Rightarrow> int32 \<Rightarrow> string \<Rightarrow> OperationResult \<Rightarrow>
     Details \<Rightarrow> (Details \<times> error option) go" where
  "arm_PathPaymentStrictSend env operation transaction operationIndex sourceAccountAddress
     currentOperationResult outputDetails =
     (case GetPathPaymentStrictSendOp (Body operation) of
        None \<Rightarrow> Returns (Details_zero,
                  Some (CouldNotAccessInfo ''PathPaymentStrictSend'' operationIndex))
      | Some op \<Rightarrow>
          (case GetAccountAddressFromMuxedAccount env (StrictSend_Destination op) of
             Inl err \<Rightarrow> Returns (Details_zero, Some err)
           | Inr toAccountAddress \<Rightarrow>
               (let d1 = outputDetails\<lparr>From := sourceAccountAddress, To := toAccountAddress,
                           SourceAmount := ConvertStroopValueToReal (StrictSend_SendAmount op),
                           DestinationMin := amount_String env (StrictSend_DestMin op)\<rparr>;
                    d2 = fst (addAssetDetailsToOperationDetails env d1
                                (StrictSend_DestAsset op) []);
                    d3 = fst (addAssetDetailsToOperationDetails env d2
                                (StrictSend_SendAsset op) ''source'')
                in if Successful (Result transaction) then
                     (case GetTr currentOperationResult of
                        None \<Rightarrow> Returns (Details_zero,
                                  Some (CouldNotAccessResultBody operationIndex))
                      | Some resultBody \<Rightarrow>
                          (case GetPathPaymentStrictSendResult resultBody of
                             None \<Rightarrow> Returns (Details_zero,
                                       Some (CouldNotAccessResultInfo
                                               ''GetPathPaymentStrictSendResult'' operationIndex))
                           | Some result \<Rightarrow> Returns (d3
                               \<lparr>Amount := ConvertStroopValueToReal (DestAmount result),
                                Path := transformPath env (StrictSend_Path op)\<rparr>, None)))
                   else Returns (d3\<lparr>Path := transformPath env (StrictSend_Path op)\<rparr>,
                                 None))))"

definition arm_ManageBuyOffer ::
  "externals \<Rightarrow> Operation \<Rightarrow> int32 \<Rightarrow> Details \<Rightarrow> (Details \<times> error option) go" where
  "arm_ManageBuyOffer env operation operationIndex outputDetails =
     (case GetManageBuyOfferOp (Body operation) of
        None \<Rightarrow> Returns (Details_zero, Some (CouldNotAccessInfo ''ManageBuyOffer'' operationIndex))
      | Some op \<Rightarrow>
          (case ParsePrice env (ManageBuy_Price op) of
             Inl err \<Rightarrow> Returns (Details_zero, Some err)
           | Inr parsedPrice \<Rightarrow>
               (let d1 = outputDetails\<lparr>OfferID := ManageBuy_OfferId op,
                           Amount := ConvertStroopValueToReal (ManageBuy_BuyAmount op),
                           Price := parsedPrice,
                           PriceR := MkPrice (Price_N (ManageBuy_Price op))
                                       (Price_D (ManageBuy_Price op))\<rparr>;
                    d2 = fst (addAssetDetailsToOperationDetails env d1
                                (ManageBuy_Buying op) ''buying'')
                in Returns (fst (addAssetDetailsToOperationDetails env d2
                                   (ManageBuy_Selling op) ''selling''), None))))"

definition arm_ManageSellOffer ::
  "externals \<Rightarrow> Operation \<Rightarrow> int32 \<Rightarrow> Details \<Rightarrow> (Details \<times> error option) go" where
  "arm_ManageSellOffer env operation operationIndex outputDetails =
     (case GetManageSellOfferOp (Body operation) of
        None \<Rightarrow> Returns (Details_zero, Some (CouldNotAccessInfo ''ManageSellOffer'' operationIndex))
      | Some op \<Rightarrow>
          (case ParsePrice env (ManageSell_Price op) of
             Inl err \<Rightarrow> Returns (Details_zero, Some err)
           | Inr parsedPrice \<Rightarrow>
               (let d1 = outputDetails\<lparr>OfferID := ManageSell_OfferId op,
                           Amount := ConvertStroopValueToReal (ManageSell_Amount op),
                           Price := parsedPrice,
                           PriceR := MkPrice (Price_N (ManageSell_Price op))
                                       (Price_D (ManageSell_Price op))\<rparr>;
                    d2 = fst (addAssetDetailsToOperationDetails env d1
                                (ManageSell_Buying op) ''buying'')
                in Returns (fst (addAssetDetailsToOperationDetails env d2
                                   (ManageSell_Selling op) ''selling''), None))))"

definition arm_CreatePassiveSellOffer ::
  "externals \<Rightarrow> Operation \<Rightarrow> int32 \<Rightarrow> Details \<Rightarrow> (Details \<times> error option) go" where
  "arm_CreatePassiveSellOffer env operation operationIndex outputDetails =
     (case GetCreatePassiveSellOfferOp (Body operation) of
        None \<Rightarrow> Returns (Details_zero,
                  Some (CouldNotAccessInfo ''CreatePassiveSellOffer'' operationIndex))
      | Some op \<Rightarrow>
          (case ParsePrice env (CreatePassive_Price op) of
             Inl err \<Rightarrow> Returns (Details_zero, Some err)
           | Inr parsedPrice \<Rightarrow>
               (let d1 = outputDetails
                           \<lparr>Amount := ConvertStroopValueToReal (CreatePassive_Amount op),
                            Price := parsedPrice,
                            PriceR := MkPrice (Price_N (CreatePassive_Price op))
                                        (Price_D (CreatePassive_Price op))\<rparr>;
                    d2 = fst (addAssetDetailsToOperationDetails env d1
                                (CreatePassive_Buying op) ''buying'')
                in Returns (fst (addAssetDetailsToOperationDetails env d2
                                   (CreatePassive_Selling op) ''selling''), None))))"

definition arm_SetOptions ::
  "externals \<Rightarrow> Operation \<Rightarrow> int32 \<Rightarrow> Details \<Rightarrow> (Details \<times> error option) go" where
  "arm_SetOptions env operation operationIndex outputDetails =
     (case GetSetOptionsOp (Body operation) of
        None \<Rightarrow> Returns (Details_zero, Some (CouldNotAccessInfo ''GetSetOptions'' operationIndex))
      | Some op \<Rightarrow>
          (let d1 = (case SetOptions_InflationDest op of
                       Some a \<Rightarrow> outputDetails\<lparr>InflationDest := AccountId_Address env a\<rparr>
                     | None \<Rightarrow> outputDetails);
               d2 = (case SetOptions_SetFlags op of
                       Some f \<Rightarrow> if 0 < f then addOperationFlagToOperationDetails d1 f ''set''
                                 else d1
                     | None \<Rightarrow> d1);
               d3 = (case SetOptions_ClearFlags op of
                       Some f \<Rightarrow> if 0 < f then addOperationFlagToOperationDetails d2 f ''clear''
                                 else d2
                     | None \<Rightarrow> d2);
               d4 = (case SetOptions_MasterWeight op of
                       Some w \<Rightarrow> d3\<lparr>MasterKeyWeight := w\<rparr> | None \<Rightarrow> d3);
               d5 = (case SetOptions_LowThreshold op of
                       Some w \<Rightarrow> d4\<lparr>LowThreshold := w\<rparr> | None \<Rightarrow> d4);
               d6 = (case SetOptions_MedThreshold op of
                       Some w \<Rightarrow> d5\<lparr>MedThreshold := w\<rparr> | None \<Rightarrow> d5);
               d7 = (case SetOptions_HighThreshold op of
                       Some w \<Rightarrow> d6\<lparr>HighThreshold := w\<rparr> | None \<Rightarrow> d6);
               d8 = (case SetOptions_HomeDomain op of
                       Some h \<Rightarrow> d7\<lparr>HomeDomain := h\<rparr> | None \<Rightarrow> d7)
           in Returns
                (case SetOptions_Signer op of
                   Some sg \<Rightarrow> d8\<lparr>SignerKey := SignerKey_Address env (Signer_Key sg),
                                 SignerWeight := Signer_Weight sg\<rparr>
                 | None \<Rightarrow> d8, None)))"

definition arm_ChangeTrust ::
  "externals \<Rightarrow> Operation \<Rightarrow> int32 \<Rightarrow> string \<Rightarrow> Details \<Rightarrow> (Details \<times> error option) go" where
  "arm_ChangeTrust env operation operationIndex sourceAccountAddress outputDetails =
     (case GetChangeTrustOp (Body operation) of
        None \<Rightarrow> Returns (Details_zero, Some (CouldNotAccessInfo ''GetChangeTrust'' operationIndex))
      | Some op \<Rightarrow>
          (let d1 = fst (addAssetDetailsToOperationDetails env outputDetails
                           (ChangeTrust_Line op) [])
           in Returns (d1\<lparr>Trustor := sourceAccountAddress, Trustee := AssetIssuer d1,
                           Limit := ConvertStroopValueToReal (ChangeTrust_Limit op)\<rparr>, None)))"

definition arm_AllowTrust ::
  "externals \<Rightarrow> Operation \<Rightarrow> int32 \<Rightarrow> MuxedAccount \<Rightarrow> string \<Rightarrow> Details \<Rightarrow>
     (Details \<times> error option) go" where
  "arm_AllowTrust env operation operationIndex sourceAccount sourceAccountAddress outputDetails =
     (case GetAllowTrustOp (Body operation) of
        None \<Rightarrow> Returns (Details_zero, Some (CouldNotAccessInfo ''AllowTrust'' operationIndex))
      | Some op \<Rightarrow>
          (let d1 = fst (addAssetDetailsToOperationDetails env outputDetails
                           (AssetCode_ToAsset (AllowTrust_Asset op) (ToAccountId sourceAccount))
                           [])
           in Returns (d1\<lparr>Trustee := sourceAccountAddress,
                           Trustor := AccountId_Address env (AllowTrust_Trustor op),
                           Authorize := IsAuthorized (AllowTrust_Authorize op)\<rparr>, None)))"

definition arm_AccountMerge ::
  "externals \<Rightarrow> Operation \<Rightarrow> int32 \<Rightarrow> string \<Rightarrow> Details \<Rightarrow> (Details \<times> error option) go" where
  "arm_AccountMerge env operation operationIndex sourceAccountAddress outputDetails =
     (case GetDestination (Body operation) of
        None \<Rightarrow> Returns (Details_zero, Some (CouldNotAccessInfo ''Destination'' operationIndex))
      | Some destinationAccount \<Rightarrow>
          (case GetAccountAddressFromMuxedAccount env destinationAccount of
             Inl err \<Rightarrow> Returns (Details_zero, Some err)
           | Inr destinationAccountAddress \<Rightarrow>
               Returns (outputDetails\<lparr>Account := sourceAccountAddress,
                                       Into := destinationAccountAddress\<rparr>, None)))"

definition arm_Inflation :: "Details \<Rightarrow> (Details \<times> error option) go" where
  "arm_Inflation outputDetails = Returns (outputDetails, None)"

definition arm_ManageData ::
  "externals \<Rightarrow> Operation \<Rightarrow> int32 \<Rightarrow> Details \<Rightarrow> (Details \<times> error option) go" where
  "arm_ManageData env operation operationIndex outputDetails =
     (case GetManageDataOp (Body operation) of
        None \<Rightarrow> Returns (Details_zero, Some (CouldNotAccessInfo ''GetManageData'' operationIndex))
      | Some op \<Rightarrow>
          Returns (outputDetails
            \<lparr>Name := ManageData_DataName op,
             Value := (case ManageData_DataValue op of
                         Some v \<Rightarrow> base64_EncodeToString env v
                       | None \<Rightarrow> [])\<rparr>, None))"

definition arm_BumpSequence ::
  "externals \<Rightarrow> Operation \<Rightarrow> int32 \<Rightarrow> Details \<Rightarrow> (Details \<times> error option) go" where
  "arm_BumpSequence env operation operationIndex outputDetails =
     (case GetBumpSequenceOp (Body operation) of
        None \<Rightarrow> Returns (Details_zero, Some (CouldNotAccessInfo ''BumpSequence'' operationIndex))
      | Some op \<Rightarrow>
          Returns (outputDetails\<lparr>BumpTo := Sprintf_d env (BumpSequence_BumpTo op)\<rparr>, None))"

text \<open>The loop over the claimants: \<^verbatim>\<open>MustV0\<close> panics on a claimant of another version.\<close>

fun claimants_loop ::
  "externals \<Rightarrow> Claimant list option \<Rightarrow> XdrClaimant list \<Rightarrow> Claimant list option go" where
  "claimants_loop env claimants [] = Returns claimants"
| "claimants_loop env claimants (c # rest) =
     (case MustV0 c of
        Panic p \<Rightarrow> Panic p
      | Returns cv0 \<Rightarrow>
          claimants_loop env
            (append_slice claimants
               (Claimant (AccountId_Address env (ClaimantV0_Destination cv0))
                  (ClaimantV0_Predicate cv0)))
            rest)"

definition arm_CreateClaimableBalance ::
  "externals \<Rightarrow> Operation \<Rightarrow> Details \<Rightarrow> (Details \<times> error option) go" where
  "arm_CreateClaimableBalance env operation outputDetails =
     (case MustCreateClaimableBalanceOp (Body operation) of
        Panic p \<Rightarrow> Panic p
      | Returns op \<Rightarrow>
          (case claimants_loop env None (CreateClaimableBalance_Claimants op) of
             Panic p \<Rightarrow> Panic p
           | Returns claimants \<Rightarrow>
               Returns (outputDetails
                 \<lparr>AssetCode := Asset_StringCanonical env (CreateClaimableBalance_Asset op),
                  Amount := ConvertStroopValueToReal (CreateClaimableBalance_Amount op),
                  Claimants := claimants\<rparr>, None)))"

definition arm_ClaimClaimableBalance ::
  "externals \<Rightarrow> Operation \<Rightarrow> int32 \<Rightarrow> string \<Rightarrow> Details \<Rightarrow> (Details \<times> error option) go" where
  "arm_ClaimClaimableBalance env operation operationIndex sourceAccountAddress outputDetails =
     (case MustClaimClaimableBalanceOp (Body operation) of
        Panic p \<Rightarrow> Panic p
      | Returns op \<Rightarrow>
          (case MarshalHex env (ClaimClaimableBalance_BalanceId op) of
             Inl err \<Rightarrow> Returns (Details_zero, Some (InvalidBalanceId operationIndex))
           | Inr balanceID \<Rightarrow>
               Returns (outputDetails\<lparr>BalanceID := balanceID,
                                       Account := sourceAccountAddress\<rparr>, None)))"

definition arm_BeginSponsoringFutureReserves ::
  "externals \<Rightarrow> Operation \<Rightarrow> Details \<Rightarrow> (Details \<times> error option) go" where
  "arm_BeginSponsoringFutureReserves env operation outputDetails =
     (case MustBeginSponsoringFutureReservesOp (Body operation) of
        Panic p \<Rightarrow> Panic p
      | Returns op \<Rightarrow>
          Returns (outputDetails
            \<lparr>SponsoredID := AccountId_Address env (BeginSponsoring_SponsoredId op)\<rparr>, None))"

definition arm_EndSponsoringFutureReserves ::
  "externals \<Rightarrow> Operation \<Rightarrow> LedgerTransaction \<Rightarrow> int32 \<Rightarrow> Details \<Rightarrow>
     (Details \<times> error option) go" where
  "arm_EndSponsoringFutureReserves env operation transaction operationIndex outputDetails =
     (case findInitatingBeginSponsoringOp env operation operationIndex transaction of
        Panic p \<Rightarrow> Panic p
      | Returns None \<Rightarrow> Returns (outputDetails, None)
      | Returns (Some beginSponsorOp) \<Rightarrow>
          (case GetAccountAddressFromMuxedAccount env
                  (getOperationSourceAccount (Sponsorship_Operation beginSponsorOp)
                     transaction) of
             Inl err \<Rightarrow> Returns (Details_zero, Some (CannotGetSponsoringAddress operationIndex))
           | Inr beginSponsorAddress \<Rightarrow>
               Returns (outputDetails\<lparr>BeginSponsor := beginSponsorAddress\<rparr>, None)))"

definition arm_RevokeSponsorship ::
  "externals \<Rightarrow> Operation \<Rightarrow> Details \<Rightarrow> (Details \<times> error option) go" where
  "arm_RevokeSponsorship env operation outputDetails =
     (case MustRevokeSponsorshipOp (Body operation) of
        Panic p \<Rightarrow> Panic p
      | Returns op \<Rightarrow>
          (if RevokeSponsorship_Type op = RevokeSponsorshipTypeRevokeSponsorshipLedgerEntry then
             (case RevokeSponsorship_LedgerKey op of
                None \<Rightarrow> Panic NilPointerDereference
              | Some ledgerKey \<Rightarrow>
                  (case addLedgerKeyToDetails env outputDetails ledgerKey of
                     Panic p \<Rightarrow> Panic p
                   | Returns (d, Some err) \<Rightarrow> Returns (Details_zero, Some err)
                   | Returns (d, None) \<Rightarrow> Returns (d, None)))
           else if RevokeSponsorship_Type op = RevokeSponsorshipTypeRevokeSponsorshipSigner then
             (case RevokeSponsorship_Signer op of
                None \<Rightarrow> Panic NilPointerDereference
              | Some sg \<Rightarrow>
                  Returns (outputDetails
                    \<lparr>SignerAccountID := AccountId_Address env (RevokeSigner_AccountId sg),
                     SignerKey := SignerKey_Address env (RevokeSigner_SignerKey sg)\<rparr>, None))
           else Returns (outputDetails, None)))"

definition arm_Clawback ::
  "externals \<Rightarrow> Operation \<Rightarrow> Details \<Rightarrow> (Details \<times> error option) go" where
  "arm_Clawback env operation outputDetails =
     (case MustClawbackOp (Body operation) of
        Panic p \<Rightarrow> Panic p
      | Returns op \<Rightarrow>
          (let d1 = fst (addAssetDetailsToOperationDetails env outputDetails
                           (Clawback_Asset op) [])
           in case GetAccountAddressFromMuxedAccount env (Clawback_From op) of
                Inl err \<Rightarrow> Returns (Details_zero, Some err)
              | Inr fromAccount \<Rightarrow>
                  Returns (d1\<lparr>From := fromAccount,
                              Amount := ConvertStroopValueToReal (Clawback_Amount op)\<rparr>,
                           None)))"

definition arm_ClawbackClaimableBalance ::
  "externals \<Rightarrow> Operation \<Rightarrow> int32 \<Rightarrow> Details \<Rightarrow> (Details \<times> error option) go" where
  "arm_ClawbackClaimableBalance env operation operationIndex outputDetails =
     (case MustClawbackClaimableBalanceOp (Body operation) of
        Panic p \<Rightarrow> Panic p
      | Returns op \<Rightarrow>
          (case MarshalHex env (ClawbackClaimableBalance_BalanceId op) of
             Inl err \<Rightarrow> Returns (Details_zero, Some (InvalidBalanceId operationIndex))
           | Inr balanceID \<Rightarrow> Returns (outputDetails\<lparr>BalanceID := balanceID\<rparr>, None)))"

definition arm_SetTrustLineFlags ::
  "externals \<Rightarrow> Operation \<Rightarrow> Details \<Rightarrow> (Details \<times> error option) go" where
  "arm_SetTrustLineFlags env operation outputDetails =
     (case MustSetTrustLineFlagsOp (Body operation) of
        Panic p \<Rightarrow> Panic p
      | Returns op \<Rightarrow>
          (let d1 = outputDetails
                      \<lparr>Trustor := AccountId_Address env (SetTrustLineFlags_Trustor op)\<rparr>;
               d2 = fst (addAssetDetailsToOperationDetails env d1
                           (SetTrustLineFlags_Asset op) []);
               d3 = (if 0 < SetTrustLineFlags_SetFlags op
                     then addTrustLineFlagToDetails d2 (SetTrustLineFlags_SetFlags op) ''set''
                     else d2)
           in Returns (if 0 < SetTrustLineFlags_ClearFlags op
                       then addTrustLineFlagToDetails d3 (SetTrustLineFlags_ClearFlags op)
                              ''clear''
                       else d3, None)))"

subsection \<open>extractOperationDetails and TransformOperation\<close>

text \<open>The \<^verbatim>\<open>switch operationType\<close>, with its \<^verbatim>\<open>default\<close> last.\<close>

definition switch_operationType ::
  "externals \<Rightarrow> Operation \<Rightarrow> LedgerTransaction \<Rightarrow> int32 \<Rightarrow> MuxedAccount \<Rightarrow> string \<Rightarrow>
     OperationResult \<Rightarrow> Details \<Rightarrow> (Details \<times> error option) go" where
  "switch_operationType env operation transaction operationIndex sourceAccount
     sourceAccountAddress currentOperationResult outputDetails =
     (let operationType = Body_Type (Body operation) in
      if operationType = OperationTypeCreateAccount then
        arm_CreateAccount env operation operationIndex sourceAccountAddress outputDetails
      else if operationType = OperationTypePayment then
        arm_Payment env operation operationIndex sourceAccountAddress outputDetails
      else if operationType = OperationTypePathPaymentStrictReceive then
        arm_PathPaymentStrictReceive env operation transaction operationIndex
          sourceAccountAddress currentOperationResult outputDetails
      else if operationType = OperationTypePathPaymentStrictSend then
        arm_PathPaymentStrictSend env operation transaction operationIndex
          sourceAccountAddress currentOperationResult outputDetails
      else if operationType = OperationTypeManageBuyOffer then
        arm_ManageBuyOffer env operation operationIndex outputDetails
      else if operationType = OperationTypeManageSellOffer then
        arm_ManageSellOffer env operation operationIndex outputDetails
      else if operationType = OperationTypeCreatePassiveSellOffer then
        arm_CreatePassiveSellOffer env operation operationIndex outputDetails
      else if operationType = OperationTypeSetOptions then
        arm_SetOptions env operation operationIndex outputDetails
      else if operationType = OperationTypeChangeTrust then
        arm_ChangeTrust env operation operationIndex sourceAccountAddress outputDetails
      else if operationType = OperationTypeAllowTrust then
        arm_AllowTrust env operation operationIndex sourceAccount sourceAccountAddress
          outputDetails
      else if operationType = OperationTypeAccountMerge then
        arm_AccountMerge env operation operationIndex sourceAccountAddress outputDetails
      else if operationType = OperationTypeInflation then
        arm_Inflation outputDetails
      else if operationType = OperationTypeManageData then
        arm_ManageData env operation operationIndex outputDetails
      else if operationType = OperationTypeBumpSequence then
        arm_BumpSequence env operation operationIndex outputDetails
      else if operationType = OperationTypeCreateClaimableBalance then
        arm_CreateClaimableBalance env operation outputDetails
      else if operationType = OperationTypeClaimClaimableBalance then
        arm_ClaimClaimableBalance env operation operationIndex sourceAccountAddress
          outputDetails
      else if operationType = OperationTypeBeginSponsoringFutureReserves then
        arm_BeginSponsoringFutureReserves env operation outputDetails
      else if operationType = OperationTypeEndSponsoringFutureReserves then
        arm_EndSponsoringFutureReserves env operation transaction operationIndex outputDetails
      else if operationType = OperationTypeRevokeSponsorship then
        arm_RevokeSponsorship env operation outputDetails
      else if operationType = OperationTypeClawback then
        arm_Clawback env operation outputDetails
      else if operationType = OperationTypeClawbackClaimableBalance then
        arm_ClawbackClaimableBalance env operation operationIndex outputDetails
      else if operationType = OperationTypeSetTrustLineFlags then
        arm_SetTrustLineFlags env operation outputDetails
      else Returns (Details_zero, Some (UnknownOperationType operationType)))"

definition extractOperationDetails ::
  "externals \<Rightarrow> Operation \<Rightarrow> LedgerTransaction \<Rightarrow> int32 \<Rightarrow> (Details \<times> error option) go" where
  "extractOperationDetails env operation transaction operationIndex =
     (let outputDetails = Details_zero;
          sourceAccount = getOperationSourceAccount operation transaction
      in case GetAccountAddressFromMuxedAccount env sourceAccount of
           Inl err \<Rightarrow> Returns (Details_zero, Some err)
         | Inr sourceAccountAddress \<Rightarrow>
             (case OperationResults (Result transaction) of
                None \<Rightarrow> Returns (Details_zero, Some CouldNotAccessResults)
              | Some allOperationResults \<Rightarrow>
                  (case index_slice ''allOperationResults'' allOperationResults
                          (sint operationIndex) of
                     Panic p \<Rightarrow> Panic p
                   | Returns currentOperationResult \<Rightarrow>
                       (case switch_operationType env operation transaction operationIndex
                               sourceAccount sourceAccountAddress currentOperationResult
                               outputDetails of
                          Panic p \<Rightarrow> Panic p
                        | Returns (d, Some err) \<Rightarrow> Returns (d, Some err)
                        | Returns (d, None) \<Rightarrow> Returns (ensureSlicesAreNotNil d, None)))))"

definition TransformOperation ::
  "externals \<Rightarrow> Operation \<Rightarrow> int32 \<Rightarrow> LedgerTransaction \<Rightarrow> int32 \<Rightarrow>
     (OperationOutput \<times> error option) go" where
  "TransformOperation env operation operationIndex transaction ledgerSeq =
     (let outputTransactionID = toid env ledgerSeq (Index transaction) 0;
          outputOperationID = toid env ledgerSeq (Index transaction) (operationIndex + 1)
      in case GetAccountAddressFromMuxedAccount env
                (getOperationSourceAccount operation transaction) of
           Inl err \<Rightarrow> Returns (OperationOutput_zero,
                       Some (ForOperation operationIndex outputOperationID err))
         | Inr outputSourceAccount \<Rightarrow>
             (let outputOperationType = Body_Type (Body operation)
              in if sint outputOperationType < 0 then
                   Returns (OperationOutput_zero,
                     Some (NegativeOperationType outputOperationType operationIndex
                             outputOperationID))
                 else
                   (case extractOperationDetails env operation transaction operationIndex of
                      Panic p \<Rightarrow> Panic p
                    | Returns (outputDetails, Some err) \<Rightarrow> Returns (OperationOutput_zero, Some err)
                    | Returns (outputDetails, None) \<Rightarrow>
                        Returns (\<lparr> SourceAccount_out = outputSourceAccount,
                                   Type = outputOperationType,
                                   ApplicationOrder = operationIndex + 1,
                                   TransactionID = outputTransactionID,
                                   OperationID = outputOperationID,
                                   OperationDetails = outputDetails \<rparr>, None))))"

subsection \<open>Notions used in the statements\<close>

text \<open>What a call returned: the record when there is no error, or the error.\<close>

definition record_of :: "('a \<times> error option) go \<Rightarrow> 'a option" where
  "record_of r = (case r of Returns (x, None) \<Rightarrow> Some x | _ \<Rightarrow> None)"

definition error_of :: "('a \<times> error option) go \<Rightarrow> error option" where
  "error_of r = (case r of Returns (x, Some e) \<Rightarrow> Some e | _ \<Rightarrow> None)"

text \<open>The operation kinds that the switch handles, in the order of the protocol.\<close>

definition handled_operation_types :: "int32 list" where
  "handled_operation_types =
     [OperationTypeCreateAccount, OperationTypePayment, OperationTypePathPaymentStrictReceive,
      OperationTypeManageSellOffer, OperationTypeCreatePassiveSellOffer,
      OperationTypeSetOptions, OperationTypeChangeTrust, OperationTypeAllowTrust,
      OperationTypeAccountMerge, OperationTypeInflation, OperationTypeManageData,
      OperationTypeBumpSequence, OperationTypeManageBuyOffer,
      OperationTypePathPaymentStrictSend, OperationTypeCreateClaimableBalance,
      OperationTypeClaimClaimableBalance, OperationTypeBeginSponsoringFutureReserves,
      OperationTypeEndSponsoringFutureReserves, OperationTypeRevokeSponsorship,
      OperationTypeClawback, OperationTypeClawbackClaimableBalance,
      OperationTypeSetTrustLineFlags]"

text \<open>
  Flag decomposition as the spec words it: the fixed enumeration of the named bits of a
  domain, and of a bitmask the entries whose bit is set, in the order of the enumeration.
\<close>

definition account_flag_enumeration :: "(int32 \<times> string) list" where
  "account_flag_enumeration =
     [(1, ''auth_required''), (2, ''auth_revocable''), (4, ''auth_immutable'')]"

definition trustline_flag_enumeration :: "(int32 \<times> string) list" where
  "trustline_flag_enumeration =
     [(1, ''authorized''), (2, ''authorized_to_maintain_liabilities''),
      (4, ''clawback_enabled'')]"

definition set_bits :: "32 word \<Rightarrow> (int32 \<times> string) list \<Rightarrow> (int32 \<times> string) list" where
  "set_bits flags enumeration = filter (\<lambda>entry. flags AND fst entry \<noteq> 0) enumeration"

text \<open>
  The sponsorship lookback as the spec words it: among the indices \<open>i - 1\<close> down to
  \<open>0\<close>, the first whose operation is a begin-sponsoring operation that declares the
  sponsoree as its sponsored account.
\<close>

definition begins_sponsoring :: "externals \<Rightarrow> AccountId \<Rightarrow> Operation \<Rightarrow> bool" where
  "begins_sponsoring env sponsoree operation =
     (case GetBeginSponsoringFutureReservesOp (Body operation) of
        Some beginOp \<Rightarrow> AccountId_Address env (BeginSponsoring_SponsoredId beginOp)
                          = AccountId_Address env sponsoree
      | None \<Rightarrow> False)"

definition lookback :: "externals \<Rightarrow> Operation list \<Rightarrow> AccountId \<Rightarrow> nat \<Rightarrow> nat option" where
  "lookback env operations sponsoree i =
     find (\<lambda>j. begins_sponsoring env sponsoree (operations ! j)) (rev [0..<i])"

text \<open>
  A path as the spec words it: the triple of each asset, in order; \<open>None\<close> where an asset
  of the path cannot be extracted.
\<close>

definition path_entry :: "externals \<Rightarrow> Asset \<Rightarrow> Path option" where
  "path_entry env asset =
     (case Asset_Extract env asset of
        Inl err \<Rightarrow> None
      | Inr (assetType, code, issuer) \<Rightarrow> Some (MkPath assetType issuer code))"

text \<open>A transaction with other per-operation results.\<close>

definition with_results :: "LedgerTransaction \<Rightarrow> OperationResult list option \<Rightarrow> LedgerTransaction" where
  "with_results transaction rs =
     LedgerTransaction (Index transaction) (Envelope transaction)
       (TransactionResultPair (Successful (Result transaction)) rs)"

subsection \<open>Example inputs\<close>

text \<open>
  A simple instance of the parameters: an address is the key itself, and the empty key has
  none; extraction of an asset never reports an error, and gives empty strings where the
  asset has no code or issuer to give; the widths are those of a 32/20/12 identifier.
\<close>

definition example_address :: "MuxedAccount \<Rightarrow> error + string" where
  "example_address m =
     (case ToAccountId m of
        AccountId k \<Rightarrow> if k = [] then Inl (ExternalError ''invalid address'') else Inr k)"

definition example_extract :: "Asset \<Rightarrow> error + (string \<times> string \<times> string)" where
  "example_extract a =
     (if Asset_Type a = AssetTypeAssetTypeNative then Inr (''native'', [], [])
      else if Asset_Type a = AssetTypeAssetTypeCreditAlphanum4 then
        (case Asset_AlphaNum4 a of
           Some (AlphaNum c (AccountId k)) \<Rightarrow> Inr (''credit_alphanum4'', c, k)
         | None \<Rightarrow> Inr (''credit_alphanum4'', [], []))
      else if Asset_Type a = AssetTypeAssetTypeCreditAlphanum12 then
        (case Asset_AlphaNum12 a of
           Some (AlphaNum c (AccountId k)) \<Rightarrow> Inr (''credit_alphanum12'', c, k)
         | None \<Rightarrow> Inr (''credit_alphanum12'', [], []))
      else Inr ([], [], []))"

definition example_externals :: externals where
  "example_externals = \<lparr>
     GetAccountAddressFromMuxedAccount = example_address,
     AccountId_Address = (\<lambda>a. case a of AccountId k \<Rightarrow> k),
     SignerKey_Address = (\<lambda>k. case k of MkSignerKey x \<Rightarrow> x),
     Asset_Extract = example_extract,
     Asset_StringCanonical = (\<lambda>a. []),
     MarshalHex = (\<lambda>b. case b of ClaimableBalanceId x \<Rightarrow> Inr x),
     ParsePrice = (\<lambda>p. if Price_D p = 0 then Inl (ExternalError ''price'')
                         else Inr (Fract (sint (Price_N p)) (sint (Price_D p)))),
     amount_String = (\<lambda>a. []),
     base64_EncodeToString = (\<lambda>v. v),
     Sprintf_d = (\<lambda>n. []),
     toid_TransactionBits = 20,
     toid_OperationBits = 12 \<rparr>"

definition native :: Asset where
  "native = Asset AssetTypeAssetTypeNative None None"

definition usd :: Asset where
  "usd = Asset AssetTypeAssetTypeCreditAlphanum4 (Some (AlphaNum ''USD'' (AccountId ''GI''))) None"




definition no_result :: OperationResult where
  "no_result = OperationResult None"

text \<open>The transaction of the spec's sponsorship example, succeeded and failed.\<close>

definition begin_X :: Operation where
  "begin_X = Operation None (OperationBody OperationTypeBeginSponsoringFutureReserves
     (ArmBeginSponsoringFutureReservesOp (BeginSponsoringFutureReservesOp (AccountId ''GX''))))"

definition payment_X :: Operation where
  "payment_X = Operation (Some (KeyTypeEd25519 ''GX'')) (OperationBody OperationTypePayment
     (ArmPaymentOp (PaymentOp (KeyTypeEd25519 ''GD'') native 10)))"

definition end_X :: Operation where
  "end_X = Operation (Some (KeyTypeEd25519 ''GX''))
     (OperationBody OperationTypeEndSponsoringFutureReserves ArmVoid)"

definition sponsoring_tx :: "bool \<Rightarrow> LedgerTransaction" where
  "sponsoring_tx ok = LedgerTransaction 3
     (TransactionEnvelope (KeyTypeEd25519 ''GS'') [begin_X, payment_X, end_X])
     (TransactionResultPair ok (Some [no_result, no_result, no_result]))"

definition succeeded :: "('a \<times> error option) go \<Rightarrow> bool" where
  "succeeded r = (case r of Returns (x, None) \<Rightarrow> True | _ \<Rightarrow> False)"

text \<open>A transaction of the source account \<open>GS\<close>, third in its ledger.\<close>

definition example_tx :: "bool \<Rightarrow> Operation list \<Rightarrow> OperationResult list option \<Rightarrow> LedgerTransaction" where
  "example_tx ok operations results = LedgerTransaction 3
     (TransactionEnvelope (KeyTypeEd25519 ''GS'') operations) (TransactionResultPair ok results)"

definition create_account_op :: Operation where
  "create_account_op = Operation None (OperationBody OperationTypeCreateAccount
     (ArmCreateAccountOp (CreateAccountOp (AccountId ''GN'') 15000000)))"

definition create_account_tx :: LedgerTransaction where
  "create_account_tx = example_tx True [create_account_op] (Some [no_result])"

text \<open>An operation whose type tag is none of the handled ones.\<close>

definition unknown_op :: Operation where
  "unknown_op = Operation None (OperationBody 99 ArmVoid)"

definition inflation_op :: Operation where
  "inflation_op = Operation None (OperationBody OperationTypeInflation ArmVoid)"

text \<open>The strict-receive result that an operation result holds, if it holds one.\<close>

definition strict_receive_result :: "OperationResult \<Rightarrow> PathPaymentStrictReceiveResult option" where
  "strict_receive_result r =
     (case GetTr r of None \<Rightarrow> None | Some tr \<Rightarrow> GetPathPaymentStrictReceiveResult tr)"

text \<open>
  A path payment that receives 50 USD for at most 100 of the native asset, and the result
  of the spec's example: 42.5 were sent.
\<close>

definition receive_op :: Operation where
  "receive_op = Operation None (OperationBody OperationTypePathPaymentStrictReceive
     (ArmPathPaymentStrictReceiveOp
        (PathPaymentStrictReceiveOp native 1000000000 (KeyTypeEd25519 ''GD'') usd 500000000
           [])))"

definition sent_42_5 :: OperationResult where
  "sent_42_5 = OperationResult
     (Some (TrPathPaymentStrictReceiveResult (PathPaymentStrictReceiveResult 425000000)))"

text \<open>
  The entries of the assets of a path; the empty sequence stands in where
  \<^verbatim>\<open>transformPath\<close> gives up on an extraction error.
\<close>

definition normalized_path :: "externals \<Rightarrow> Asset list \<Rightarrow> Path list" where
  "normalized_path env path =
     (case those (map (path_entry env) path) of None \<Rightarrow> [] | Some entries \<Rightarrow> entries)"

text \<open>A strict-receive payment through USD and the native asset.\<close>

definition receive_good_path_op :: Operation where
  "receive_good_path_op = Operation None (OperationBody OperationTypePathPaymentStrictReceive
     (ArmPathPaymentStrictReceiveOp
        (PathPaymentStrictReceiveOp native 1000000000 (KeyTypeEd25519 ''GD'') usd 500000000
           [usd, native])))"








section \<open>Properties\<close>

subsection \<open>Flag decomposition\<close>

lemma sint_ucast_32_64: "sint (ucast (g::32 word) :: 64 word) = uint g"
proof -
  have g: "uint g < 2 ^ 32" using uint_lt2p [of g] by simp
  then have b: "uint g < 2 ^ 63" "uint g < 2 ^ 64" by simp_all
  have "take_bit 64 (uint g) = uint g"
    using b(2) by (simp add: take_bit_int_eq_self)
  then have "uint (ucast g :: 64 word) = uint g"
    by (simp add: unsigned_ucast_eq)
  moreover have "sint (ucast g :: 64 word) = signed_take_bit 63 (uint (ucast g :: 64 word))"
    by (simp add: sint_uint)
  moreover have "- (2 ^ 63) \<le> uint g"
    by (rule order_trans [OF _ uint_ge_0]) simp
  then have "signed_take_bit 63 (uint g) = uint g"
    using b(1) by (rule signed_take_bit_int_eq_self)
  ultimately show ?thesis by simp
qed

lemma ucast_and_flag:
  "(ucast (f::32 word) :: 64 word) AND 1 = ucast (f AND 1)"
  "(ucast (f::32 word) :: 64 word) AND 2 = ucast (f AND 2)"
  "(ucast (f::32 word) :: 64 word) AND 4 = ucast (f AND 4)"
  by (simp_all add: unsigned_and_eq)

text \<open>The signed test on the widened mask is the test of the bit.\<close>

lemma flag_test_iff:
  "flag_test f 1 \<longleftrightarrow> f AND 1 \<noteq> 0"
  "flag_test f 2 \<longleftrightarrow> f AND 2 \<noteq> 0"
  "flag_test f 4 \<longleftrightarrow> f AND 4 \<noteq> 0"
  by (simp_all add: flag_test_def ucast_and_flag sint_ucast_32_64 word_neq_0_conv
      word_less_def)

lemmas account_flag_defs = addOperationFlagToOperationDetails_def Let_def flag_test_iff
  set_bits_def account_flag_enumeration_def append_slice_def elems_def
  AccountFlagsAuthRequiredFlag_def AccountFlagsAuthRevocableFlag_def
  AccountFlagsAuthImmutableFlag_def

lemma account_flags_set:
  "SetFlags (addOperationFlagToOperationDetails d flag ''set'')
     = Some (map fst (set_bits flag account_flag_enumeration))"
  "SetFlagsString (addOperationFlagToOperationDetails d flag ''set'')
     = Some (map snd (set_bits flag account_flag_enumeration))"
  by (simp_all add: account_flag_defs)

lemma account_flags_clear:
  "ClearFlags (addOperationFlagToOperationDetails d flag ''clear'')
     = Some (map fst (set_bits flag account_flag_enumeration))"
  "ClearFlagsString (addOperationFlagToOperationDetails d flag ''clear'')
     = Some (map snd (set_bits flag account_flag_enumeration))"
  by (simp_all add: account_flag_defs)

lemmas trustline_flag_defs = addTrustLineFlagToDetails_def Let_def set_bits_def
  trustline_flag_enumeration_def append_slice_def elems_def IsAuthorized_def
  IsAuthorizedToMaintainLiabilitiesFlag_def IsClawbackEnabledFlag_def
  TrustLineFlagsAuthorizedFlag_def TrustLineFlagsAuthorizedToMaintainLiabilitiesFlag_def
  TrustLineFlagsTrustlineClawbackEnabledFlag_def

lemma trustline_flags_set:
  "elems (SetFlags (addTrustLineFlagToDetails d f ''set''))
     = map fst (set_bits f trustline_flag_enumeration)"
  "elems (SetFlagsString (addTrustLineFlagToDetails d f ''set''))
     = map snd (set_bits f trustline_flag_enumeration)"
  by (simp_all add: trustline_flag_defs)

lemma trustline_flags_clear:
  "elems (ClearFlags (addTrustLineFlagToDetails d f ''clear''))
     = map fst (set_bits f trustline_flag_enumeration)"
  "elems (ClearFlagsString (addTrustLineFlagToDetails d f ''clear''))
     = map snd (set_bits f trustline_flag_enumeration)"
  by (simp_all add: trustline_flag_defs)

lemma revocable_immutable_names:
  "SetFlagsString (addOperationFlagToOperationDetails d
       (AccountFlagsAuthRevocableFlag OR AccountFlagsAuthImmutableFlag) ''set'')
     = Some [''auth_revocable'', ''auth_immutable'']"
  by (simp add: account_flags_set set_bits_def account_flag_enumeration_def
      AccountFlagsAuthRevocableFlag_def AccountFlagsAuthImmutableFlag_def)

text \<open>
  Claim C6. Flag decomposition of any bitmask, for the account flags of set-options and for
  the trust line flags, stores two parallel sequences: the numeric values and the names of
  exactly the bits of the domain's enumeration that are set in the mask, in the order of
  the enumeration, the unset bits left out; the two sequences are the two projections of
  one list and so have the same length. A mask of auth-revocable and auth-immutable gives
  the names in that order.
\<close>

theorem flag_decomposition_order_stable:
  "SetFlags (addOperationFlagToOperationDetails d flag ''set'')
     = Some (map fst (set_bits flag account_flag_enumeration))
   \<and> SetFlagsString (addOperationFlagToOperationDetails d flag ''set'')
     = Some (map snd (set_bits flag account_flag_enumeration))
   \<and> ClearFlags (addOperationFlagToOperationDetails d flag ''clear'')
     = Some (map fst (set_bits flag account_flag_enumeration))
   \<and> ClearFlagsString (addOperationFlagToOperationDetails d flag ''clear'')
     = Some (map snd (set_bits flag account_flag_enumeration))
   \<and> elems (SetFlags (addTrustLineFlagToDetails d flag ''set''))
     = map fst (set_bits flag trustline_flag_enumeration)
   \<and> elems (SetFlagsString (addTrustLineFlagToDetails d flag ''set''))
     = map snd (set_bits flag trustline_flag_enumeration)
   \<and> elems (ClearFlags (addTrustLineFlagToDetails d flag ''clear''))
     = map fst (set_bits flag trustline_flag_enumeration)
   \<and> elems (ClearFlagsString (addTrustLineFlagToDetails d flag ''clear''))
     = map snd (set_bits flag trustline_flag_enumeration)
   \<and> length (elems (SetFlags (addOperationFlagToOperationDetails d flag ''set'')))
     = length (elems (SetFlagsString (addOperationFlagToOperationDetails d flag ''set'')))
   \<and> length (elems (SetFlags (addTrustLineFlagToDetails d flag ''set'')))
     = length (elems (SetFlagsString (addTrustLineFlagToDetails d flag ''set'')))
   \<and> SetFlagsString (addOperationFlagToOperationDetails d
         (AccountFlagsAuthRevocableFlag OR AccountFlagsAuthImmutableFlag) ''set'')
     = Some [''auth_revocable'', ''auth_immutable'']"
proof -
  have l1: "length (elems (SetFlags (addOperationFlagToOperationDetails d flag ''set'')))
     = length (elems (SetFlagsString (addOperationFlagToOperationDetails d flag ''set'')))"
    by (simp add: account_flags_set elems_def)
  have l2: "length (elems (SetFlags (addTrustLineFlagToDetails d flag ''set'')))
     = length (elems (SetFlagsString (addTrustLineFlagToDetails d flag ''set'')))"
    by (simp add: trustline_flags_set)
  show ?thesis
    by (intro conjI account_flags_set account_flags_clear trustline_flags_set
        trustline_flags_clear revocable_immutable_names l1 l2)
qed

subsection \<open>Fixed-point amounts\<close>

text \<open>
  Claim C8. The conversion of a stroop value divides it by 10^7 exactly: the result times
  10^7 is the stroop value again, so nothing is rounded; 15000000 stroops are 1.5 and one
  stroop is 0.0000001.
\<close>

theorem stroop_conversion_exact:
  "ConvertStroopValueToReal 15000000 = 3 / 2
   \<and> ConvertStroopValueToReal 1 = 1 / 10000000
   \<and> ConvertStroopValueToReal x * 10000000 = of_int (sint x)"
  by (simp add: ConvertStroopValueToReal_def)

subsection \<open>What a successful call returns\<close>

lemma succeeded_Returns: "succeeded r \<Longrightarrow> \<exists>x. r = Returns (x, None)"
  by (auto simp add: succeeded_def split: go.splits prod.splits option.splits)

lemma ensureSlicesAreNotNil_present:
  "Path (ensureSlicesAreNotNil d) \<noteq> None"
  "SetFlags (ensureSlicesAreNotNil d) \<noteq> None"
  "SetFlagsString (ensureSlicesAreNotNil d) \<noteq> None"
  "ClearFlags (ensureSlicesAreNotNil d) \<noteq> None"
  "ClearFlagsString (ensureSlicesAreNotNil d) \<noteq> None"
  by (simp_all add: ensureSlicesAreNotNil_def Let_def)

text \<open>A record returned without error went through \<^verbatim>\<open>ensureSlicesAreNotNil\<close>.\<close>

lemma extractOperationDetails_record:
  assumes "extractOperationDetails env operation transaction operationIndex = Returns (d, None)"
  shows "\<exists>d0. d = ensureSlicesAreNotNil d0"
  using assms
  by (auto simp add: extractOperationDetails_def Let_def
      split: sum.splits option.splits go.splits prod.splits)

lemma TransformOperation_record:
  assumes "TransformOperation env operation operationIndex transaction ledgerSeq
             = Returns (out, None)"
  shows "extractOperationDetails env operation transaction operationIndex
           = Returns (OperationDetails out, None)
         \<and> 0 \<le> sint (Body_Type (Body operation))
         \<and> Type out = Body_Type (Body operation)
         \<and> ApplicationOrder out = operationIndex + 1
         \<and> TransactionID out = toid env ledgerSeq (Index transaction) 0
         \<and> OperationID out = toid env ledgerSeq (Index transaction) (operationIndex + 1)
         \<and> GetAccountAddressFromMuxedAccount env
              (getOperationSourceAccount operation transaction) = Inr (SourceAccount_out out)"
  using assms
  by (auto simp add: TransformOperation_def Let_def
      split: sum.splits option.splits go.splits prod.splits if_splits)

text \<open>
  Claim C3. Whenever \<^verbatim>\<open>TransformOperation\<close> returns a record without error, whatever
  the operation kind, the five list-valued fields of its details (path, set_flags,
  set_flags_string, clear_flags, clear_flags_string) are allocated slices, possibly empty,
  never nil.
\<close>

theorem list_fields_never_nil:
  assumes "TransformOperation env operation operationIndex transaction ledgerSeq
             = Returns (out, None)"
  shows "Path (OperationDetails out) \<noteq> None
       \<and> SetFlags (OperationDetails out) \<noteq> None
       \<and> SetFlagsString (OperationDetails out) \<noteq> None
       \<and> ClearFlags (OperationDetails out) \<noteq> None
       \<and> ClearFlagsString (OperationDetails out) \<noteq> None"
proof -
  from TransformOperation_record [OF assms]
  have "extractOperationDetails env operation transaction operationIndex
          = Returns (OperationDetails out, None)" by simp
  then obtain d0 where "OperationDetails out = ensureSlicesAreNotNil d0"
    using extractOperationDetails_record by blast
  then show ?thesis by (simp add: ensureSlicesAreNotNil_present)
qed

text \<open>The create-account example of the spec: the record has an empty path and no flags.\<close>

theorem list_fields_never_nil_witness:
  "\<exists>out. TransformOperation example_externals create_account_op 0 create_account_tx 5
            = Returns (out, None)
     \<and> Path (OperationDetails out) = Some [] \<and> SetFlags (OperationDetails out) = Some []
     \<and> SetFlagsString (OperationDetails out) \<noteq> None
     \<and> ClearFlags (OperationDetails out) \<noteq> None
     \<and> ClearFlagsString (OperationDetails out) \<noteq> None"
proof -
  have "succeeded (TransformOperation example_externals create_account_op 0
          create_account_tx 5)"
    by code_simp
  then obtain out where out: "TransformOperation example_externals create_account_op 0
      create_account_tx 5 = Returns (out, None)"
    using succeeded_Returns by blast
  have p: "map_option (Path \<circ> OperationDetails) (record_of (TransformOperation
      example_externals create_account_op 0 create_account_tx 5)) = Some (Some [])"
    by code_simp
  have f: "map_option (SetFlags \<circ> OperationDetails) (record_of (TransformOperation
      example_externals create_account_op 0 create_account_tx 5)) = Some (Some [])"
    by code_simp
  from p f out have "Path (OperationDetails out) = Some []"
    "SetFlags (OperationDetails out) = Some []"
    by (simp_all add: record_of_def)
  with list_fields_never_nil [OF out] out show ?thesis by blast
qed

subsection \<open>Errors\<close>

lemmas arm_defs = arm_CreateAccount_def arm_Payment_def arm_PathPaymentStrictReceive_def
  arm_PathPaymentStrictSend_def arm_ManageBuyOffer_def arm_ManageSellOffer_def
  arm_CreatePassiveSellOffer_def arm_SetOptions_def arm_ChangeTrust_def arm_AllowTrust_def
  arm_AccountMerge_def arm_Inflation_def arm_ManageData_def arm_BumpSequence_def
  arm_CreateClaimableBalance_def arm_ClaimClaimableBalance_def
  arm_BeginSponsoringFutureReserves_def arm_EndSponsoringFutureReserves_def
  arm_RevokeSponsorship_def arm_Clawback_def arm_ClawbackClaimableBalance_def
  arm_SetTrustLineFlags_def

lemma arm_error_zero:
  "arm_CreateAccount env operation i a d0 = Returns (d, Some e) \<Longrightarrow> d = Details_zero"
  "arm_Payment env operation i a d0 = Returns (d, Some e) \<Longrightarrow> d = Details_zero"
  "arm_PathPaymentStrictReceive env operation tx i a r d0 = Returns (d, Some e)
     \<Longrightarrow> d = Details_zero"
  "arm_PathPaymentStrictSend env operation tx i a r d0 = Returns (d, Some e)
     \<Longrightarrow> d = Details_zero"
  "arm_ManageBuyOffer env operation i d0 = Returns (d, Some e) \<Longrightarrow> d = Details_zero"
  "arm_ManageSellOffer env operation i d0 = Returns (d, Some e) \<Longrightarrow> d = Details_zero"
  "arm_CreatePassiveSellOffer env operation i d0 = Returns (d, Some e) \<Longrightarrow> d = Details_zero"
  "arm_SetOptions env operation i d0 = Returns (d, Some e) \<Longrightarrow> d = Details_zero"
  "arm_ChangeTrust env operation i a d0 = Returns (d, Some e) \<Longrightarrow> d = Details_zero"
  "arm_AllowTrust env operation i m a d0 = Returns (d, Some e) \<Longrightarrow> d = Details_zero"
  "arm_AccountMerge env operation i a d0 = Returns (d, Some e) \<Longrightarrow> d = Details_zero"
  "arm_Inflation d0 = Returns (d, Some e) \<Longrightarrow> d = Details_zero"
  "arm_ManageData env operation i d0 = Returns (d, Some e) \<Longrightarrow> d = Details_zero"
  "arm_BumpSequence env operation i d0 = Returns (d, Some e) \<Longrightarrow> d = Details_zero"
  "arm_CreateClaimableBalance env operation d0 = Returns (d, Some e) \<Longrightarrow> d = Details_zero"
  "arm_ClaimClaimableBalance env operation i a d0 = Returns (d, Some e) \<Longrightarrow> d = Details_zero"
  "arm_BeginSponsoringFutureReserves env operation d0 = Returns (d, Some e)
     \<Longrightarrow> d = Details_zero"
  "arm_EndSponsoringFutureReserves env operation tx i d0 = Returns (d, Some e)
     \<Longrightarrow> d = Details_zero"
  "arm_RevokeSponsorship env operation d0 = Returns (d, Some e) \<Longrightarrow> d = Details_zero"
  "arm_Clawback env operation d0 = Returns (d, Some e) \<Longrightarrow> d = Details_zero"
  "arm_ClawbackClaimableBalance env operation i d0 = Returns (d, Some e) \<Longrightarrow> d = Details_zero"
  "arm_SetTrustLineFlags env operation d0 = Returns (d, Some e) \<Longrightarrow> d = Details_zero"
  by (simp_all add: arm_defs Let_def
      split: option.splits sum.splits go.splits prod.splits if_splits)

lemma switch_error_zero:
  assumes "switch_operationType env operation tx i m a r d0 = Returns (d, Some e)"
  shows "d = Details_zero"
  using assms
  by (simp add: switch_operationType_def Let_def split: if_splits) (erule arm_error_zero)+


lemma extract_error_zero:
  assumes "extractOperationDetails env operation tx i = Returns (d, Some e)"
  shows "d = Details_zero"
  using assms
  by (auto simp add: extractOperationDetails_def Let_def dest: switch_error_zero
      split: sum.splits option.splits go.splits prod.splits)

lemma TransformOperation_error_zero:
  assumes "TransformOperation env operation i tx seq = Returns (out, Some e)"
  shows "out = OperationOutput_zero"
  using assms
  by (auto simp add: TransformOperation_def Let_def
      split: sum.splits option.splits go.splits prod.splits if_splits)

lemma switch_unknown:
  assumes "Body_Type (Body operation) \<notin> set handled_operation_types"
  shows "switch_operationType env operation tx i m a r d0
           = Returns (Details_zero, Some (UnknownOperationType (Body_Type (Body operation))))"
  using assms by (simp add: switch_operationType_def Let_def handled_operation_types_def)

lemma extract_unknown:
  assumes "Body_Type (Body operation) \<notin> set handled_operation_types"
  shows "record_of (extractOperationDetails env operation tx i) = None"
  using assms
  by (simp add: extractOperationDetails_def Let_def switch_unknown record_of_def
      split: sum.splits option.splits go.splits prod.splits)

lemma extract_unknown_error:
  assumes "Body_Type (Body operation) \<notin> set handled_operation_types"
    and "GetAccountAddressFromMuxedAccount env (getOperationSourceAccount operation tx) = Inr a"
    and "OperationResults (Result tx) = Some rs"
    and "0 \<le> sint i" and "sint i < int (length rs)"
  shows "extractOperationDetails env operation tx i
           = Returns (Details_zero, Some (UnknownOperationType (Body_Type (Body operation))))"
  using assms
  by (simp add: extractOperationDetails_def Let_def switch_unknown index_slice_def)

text \<open>
  Claim C5, amended. An operation whose type tag is none of the handled kinds never gets a
  record. When the tag is not negative, the source account has an address, and the
  transaction's results are present and longer than the operation index, the failure is the
  unknown-operation-type error of the \<^verbatim>\<open>default\<close> arm; the checks that come before the
  switch fail first otherwise. Whatever the input, an error comes with the zero value:
  \<^verbatim>\<open>OperationOutput{}\<close> from \<^verbatim>\<open>TransformOperation\<close>, \<^verbatim>\<open>Details{}\<close> from
  \<^verbatim>\<open>extractOperationDetails\<close>.
\<close>

theorem unknown_operation_type_fails:
  "(Body_Type (Body operation) \<notin> set handled_operation_types
      \<longrightarrow> record_of (TransformOperation env operation i tx seq) = None)
   \<and> (Body_Type (Body operation) \<notin> set handled_operation_types
        \<and> 0 \<le> sint (Body_Type (Body operation))
        \<and> GetAccountAddressFromMuxedAccount env (getOperationSourceAccount operation tx)
            = Inr a
        \<and> OperationResults (Result tx) = Some rs \<and> 0 \<le> sint i \<and> sint i < int (length rs)
      \<longrightarrow> TransformOperation env operation i tx seq
            = Returns (OperationOutput_zero,
                Some (UnknownOperationType (Body_Type (Body operation)))))
   \<and> (TransformOperation env operation i tx seq = Returns (out, Some e)
      \<longrightarrow> out = OperationOutput_zero)
   \<and> (extractOperationDetails env operation tx i = Returns (d, Some e')
      \<longrightarrow> d = Details_zero)"
proof (intro conjI impI)
  assume u: "Body_Type (Body operation) \<notin> set handled_operation_types"
  from extract_unknown [OF u, of env tx i]
  show "record_of (TransformOperation env operation i tx seq) = None"
    by (auto simp add: TransformOperation_def Let_def record_of_def
        split: sum.splits option.splits go.splits prod.splits if_splits)
next
  assume h: "Body_Type (Body operation) \<notin> set handled_operation_types
        \<and> 0 \<le> sint (Body_Type (Body operation))
        \<and> GetAccountAddressFromMuxedAccount env (getOperationSourceAccount operation tx)
            = Inr a
        \<and> OperationResults (Result tx) = Some rs \<and> 0 \<le> sint i \<and> sint i < int (length rs)"
  then have "extractOperationDetails env operation tx i
           = Returns (Details_zero, Some (UnknownOperationType (Body_Type (Body operation))))"
    using extract_unknown_error by blast
  with h show "TransformOperation env operation i tx seq
            = Returns (OperationOutput_zero,
                Some (UnknownOperationType (Body_Type (Body operation))))"
    by (simp add: TransformOperation_def Let_def)
next
  assume "TransformOperation env operation i tx seq = Returns (out, Some e)"
  then show "out = OperationOutput_zero" by (rule TransformOperation_error_zero)
next
  assume "extractOperationDetails env operation tx i = Returns (d, Some e')"
  then show "d = Details_zero" by (rule extract_error_zero)
qed

text \<open>
  Claim C5 as stated fails where the results of the transaction are missing: the operation
  of unknown type is rejected for the missing results, before the switch is reached.
\<close>

theorem unknown_operation_type_counterexample:
  "Body_Type (Body unknown_op) \<notin> set handled_operation_types
   \<and> 0 \<le> sint (Body_Type (Body unknown_op))
   \<and> error_of (TransformOperation example_externals unknown_op 0
        (example_tx False [unknown_op] None) 5) = Some CouldNotAccessResults"
  by code_simp

theorem unknown_operation_type_fails_witness:
  "Body_Type (Body unknown_op) \<notin> set handled_operation_types
   \<and> 0 \<le> sint (Body_Type (Body unknown_op))
   \<and> TransformOperation example_externals unknown_op 0
        (example_tx True [unknown_op] (Some [no_result])) 5
       = Returns (OperationOutput_zero, Some (UnknownOperationType 99))
   \<and> record_of (TransformOperation example_externals unknown_op 0
        (example_tx False [unknown_op] None) 5) = None"
proof -
  let ?tx = "example_tx True [unknown_op] (Some [no_result])"
  have u: "Body_Type (Body unknown_op) \<notin> set handled_operation_types" by code_simp
  have n: "0 \<le> sint (Body_Type (Body unknown_op))" by code_simp
  have a: "GetAccountAddressFromMuxedAccount example_externals
      (getOperationSourceAccount unknown_op ?tx) = Inr ''GS''" by code_simp
  have r: "OperationResults (Result ?tx) = Some [no_result]" by code_simp
  have t: "Body_Type (Body unknown_op) = 99" by code_simp
  from unknown_operation_type_fails [of unknown_op example_externals 0 ?tx 5 "''GS''" "[no_result]"] u n a r
  have "TransformOperation example_externals unknown_op 0 ?tx 5
       = Returns (OperationOutput_zero, Some (UnknownOperationType (Body_Type (Body unknown_op))))"
    by simp
  moreover from unknown_operation_type_fails [of unknown_op example_externals 0 "example_tx False [unknown_op] None" 5] u
  have "record_of (TransformOperation example_externals unknown_op 0
        (example_tx False [unknown_op] None) 5) = None" by simp
  ultimately show ?thesis using u n t by simp
qed

subsection \<open>The unchecked index into the results\<close>

lemma loop_panic:
  "findInitatingBeginSponsoringOp_loop env operations sponsoree n = Panic p
     \<Longrightarrow> p = IndexOutOfRange ''operations''"
  by (induction n)
     (auto simp add: index_slice_def split: go.splits option.splits if_splits)

lemma findInitating_panic:
  "findInitatingBeginSponsoringOp env operation i tx = Panic p
     \<Longrightarrow> p = IndexOutOfRange ''operations''"
  by (auto simp add: findInitatingBeginSponsoringOp_def Let_def dest: loop_panic
      split: if_splits)

lemma claimants_loop_panic:
  "claimants_loop env acc cs = Panic p \<Longrightarrow> p = MustArm ''V0''"
  by (induction cs arbitrary: acc)
     (auto simp add: MustV0_def split: go.splits option.splits)

lemma addLedgerKey_panic:
  "addLedgerKeyToDetails env d k = Panic p \<Longrightarrow> p = NilPointerDereference"
  by (auto simp add: addLedgerKeyToDetails_def split: if_splits option.splits sum.splits)

lemmas Must_defs = MustCreateClaimableBalanceOp_def MustClaimClaimableBalanceOp_def
  MustBeginSponsoringFutureReservesOp_def MustRevokeSponsorshipOp_def MustClawbackOp_def
  MustClawbackClaimableBalanceOp_def MustSetTrustLineFlagsOp_def

lemma arm_panic:
  "arm_CreateAccount env operation i a d0 \<noteq> Panic (IndexOutOfRange ''allOperationResults'')"
  "arm_Payment env operation i a d0 \<noteq> Panic (IndexOutOfRange ''allOperationResults'')"
  "arm_PathPaymentStrictReceive env operation tx i a r d0
     \<noteq> Panic (IndexOutOfRange ''allOperationResults'')"
  "arm_PathPaymentStrictSend env operation tx i a r d0
     \<noteq> Panic (IndexOutOfRange ''allOperationResults'')"
  "arm_ManageBuyOffer env operation i d0 \<noteq> Panic (IndexOutOfRange ''allOperationResults'')"
  "arm_ManageSellOffer env operation i d0 \<noteq> Panic (IndexOutOfRange ''allOperationResults'')"
  "arm_CreatePassiveSellOffer env operation i d0
     \<noteq> Panic (IndexOutOfRange ''allOperationResults'')"
  "arm_SetOptions env operation i d0 \<noteq> Panic (IndexOutOfRange ''allOperationResults'')"
  "arm_ChangeTrust env operation i a d0 \<noteq> Panic (IndexOutOfRange ''allOperationResults'')"
  "arm_AllowTrust env operation i m a d0 \<noteq> Panic (IndexOutOfRange ''allOperationResults'')"
  "arm_AccountMerge env operation i a d0 \<noteq> Panic (IndexOutOfRange ''allOperationResults'')"
  "arm_Inflation d0 \<noteq> Panic (IndexOutOfRange ''allOperationResults'')"
  "arm_ManageData env operation i d0 \<noteq> Panic (IndexOutOfRange ''allOperationResults'')"
  "arm_BumpSequence env operation i d0 \<noteq> Panic (IndexOutOfRange ''allOperationResults'')"
  "arm_ClaimClaimableBalance env operation i a d0
     \<noteq> Panic (IndexOutOfRange ''allOperationResults'')"
  "arm_BeginSponsoringFutureReserves env operation d0
     \<noteq> Panic (IndexOutOfRange ''allOperationResults'')"
  "arm_Clawback env operation d0 \<noteq> Panic (IndexOutOfRange ''allOperationResults'')"
  "arm_ClawbackClaimableBalance env operation i d0
     \<noteq> Panic (IndexOutOfRange ''allOperationResults'')"
  "arm_SetTrustLineFlags env operation d0 \<noteq> Panic (IndexOutOfRange ''allOperationResults'')"
  by (simp_all add: arm_defs Must_defs Let_def
      split: option.splits sum.splits go.splits prod.splits if_splits OperationBodyArm.splits)

lemma arm_panic_CreateClaimableBalance:
  "arm_CreateClaimableBalance env operation d0
     \<noteq> Panic (IndexOutOfRange ''allOperationResults'')"
  by (auto simp add: arm_CreateClaimableBalance_def Must_defs
      dest: claimants_loop_panic split: go.splits OperationBodyArm.splits)

lemma arm_panic_EndSponsoring:
  "arm_EndSponsoringFutureReserves env operation tx i d0
     \<noteq> Panic (IndexOutOfRange ''allOperationResults'')"
  by (auto simp add: arm_EndSponsoringFutureReserves_def
      dest: findInitating_panic split: go.splits option.splits sum.splits)

lemma arm_panic_RevokeSponsorship:
  "arm_RevokeSponsorship env operation d0
     \<noteq> Panic (IndexOutOfRange ''allOperationResults'')"
  by (auto simp add: arm_RevokeSponsorship_def Must_defs
      dest: addLedgerKey_panic
      split: go.splits option.splits prod.splits if_splits OperationBodyArm.splits)

lemma switch_panic:
  "switch_operationType env operation tx i m a r d0
     \<noteq> Panic (IndexOutOfRange ''allOperationResults'')"
  by (simp add: switch_operationType_def Let_def arm_panic arm_panic_CreateClaimableBalance
      arm_panic_EndSponsoring arm_panic_RevokeSponsorship)


text \<open>
  Claim C9. For every operation, whatever its kind and whether or not the transaction
  succeeded, \<^verbatim>\<open>extractOperationDetails\<close> returns an error when the transaction has no
  per-operation results (the missing-results error once the source address has resolved).
  With results present it indexes them at the operation index without a check: an index
  that is negative or not below the length is a run-time panic, and an index within the
  list never is.
\<close>

theorem results_required_and_indexed:
  "(OperationResults (Result tx) = None
      \<longrightarrow> (\<exists>e. extractOperationDetails env operation tx i = Returns (Details_zero, Some e)))
   \<and> (OperationResults (Result tx) = None
        \<and> GetAccountAddressFromMuxedAccount env (getOperationSourceAccount operation tx)
            = Inr a
      \<longrightarrow> extractOperationDetails env operation tx i
            = Returns (Details_zero, Some CouldNotAccessResults))
   \<and> (OperationResults (Result tx) = Some rs
        \<and> GetAccountAddressFromMuxedAccount env (getOperationSourceAccount operation tx)
            = Inr a
        \<and> \<not> (0 \<le> sint i \<and> sint i < int (length rs))
      \<longrightarrow> extractOperationDetails env operation tx i
            = Panic (IndexOutOfRange ''allOperationResults''))
   \<and> (OperationResults (Result tx) = Some rs \<and> 0 \<le> sint i \<and> sint i < int (length rs)
      \<longrightarrow> extractOperationDetails env operation tx i
            \<noteq> Panic (IndexOutOfRange ''allOperationResults''))"
proof (intro conjI impI)
  assume "OperationResults (Result tx) = None"
  then show "\<exists>e. extractOperationDetails env operation tx i = Returns (Details_zero, Some e)"
    by (simp add: extractOperationDetails_def Let_def split: sum.splits)
next
  assume "OperationResults (Result tx) = None
        \<and> GetAccountAddressFromMuxedAccount env (getOperationSourceAccount operation tx)
            = Inr a"
  then show "extractOperationDetails env operation tx i
            = Returns (Details_zero, Some CouldNotAccessResults)"
    by (simp add: extractOperationDetails_def Let_def)
next
  assume "OperationResults (Result tx) = Some rs
        \<and> GetAccountAddressFromMuxedAccount env (getOperationSourceAccount operation tx)
            = Inr a
        \<and> \<not> (0 \<le> sint i \<and> sint i < int (length rs))"
  then show "extractOperationDetails env operation tx i
            = Panic (IndexOutOfRange ''allOperationResults'')"
    by (auto simp add: extractOperationDetails_def Let_def index_slice_def)
next
  assume h: "OperationResults (Result tx) = Some rs \<and> 0 \<le> sint i \<and> sint i < int (length rs)"
  show "extractOperationDetails env operation tx i
            \<noteq> Panic (IndexOutOfRange ''allOperationResults'')"
  proof (cases "GetAccountAddressFromMuxedAccount env (getOperationSourceAccount operation tx)")
    case (Inl e)
    then show ?thesis by (simp add: extractOperationDetails_def Let_def)
  next
    case (Inr src)
    with h switch_panic [of env operation tx i "getOperationSourceAccount operation tx" src
        "rs ! nat (sint i)" Details_zero]
    show ?thesis
      by (auto simp add: extractOperationDetails_def Let_def index_slice_def
          split: go.splits prod.splits option.splits)
  qed
qed

text \<open>
  An inflation operation, which reads no result, in a failed transaction: without results
  it is an error, with an empty results list a panic, with one result a record.
\<close>

theorem results_required_and_indexed_witness:
  "extractOperationDetails example_externals inflation_op
       (example_tx False [inflation_op] None) 0
     = Returns (Details_zero, Some CouldNotAccessResults)
   \<and> extractOperationDetails example_externals inflation_op
       (example_tx False [inflation_op] (Some [])) 0
     = Panic (IndexOutOfRange ''allOperationResults'')
   \<and> extractOperationDetails example_externals inflation_op
       (example_tx False [inflation_op] (Some [no_result])) 0
     \<noteq> Panic (IndexOutOfRange ''allOperationResults'')
   \<and> succeeded (extractOperationDetails example_externals inflation_op
       (example_tx False [inflation_op] (Some [no_result])) 0)"
proof -
  let ?tx = "\<lambda>rs. example_tx False [inflation_op] rs"
  have a: "GetAccountAddressFromMuxedAccount example_externals
      (getOperationSourceAccount inflation_op (?tx rs)) = Inr ''GS''" for rs
    by (simp add: example_externals_def example_address_def getOperationSourceAccount_def
        inflation_op_def example_tx_def)
  have r: "OperationResults (Result (?tx rs)) = rs" for rs
    by (simp add: example_tx_def)
  have 1: "extractOperationDetails example_externals inflation_op (?tx None) 0
     = Returns (Details_zero, Some CouldNotAccessResults)"
    using results_required_and_indexed [of "?tx None" example_externals inflation_op 0 "''GS''"]
      a [of None] r [of None] by simp
  have 2: "extractOperationDetails example_externals inflation_op (?tx (Some [])) 0
     = Panic (IndexOutOfRange ''allOperationResults'')"
    using results_required_and_indexed [of "?tx (Some [])" example_externals inflation_op 0
        "''GS''" "[]"] a [of "Some []"] r [of "Some []"] by simp
  have 3: "extractOperationDetails example_externals inflation_op (?tx (Some [no_result])) 0
     \<noteq> Panic (IndexOutOfRange ''allOperationResults'')"
    using results_required_and_indexed [of "?tx (Some [no_result])" example_externals
        inflation_op 0 "''GS''" "[no_result]"] r [of "Some [no_result]"] by simp
  have 4: "succeeded (extractOperationDetails example_externals inflation_op
       (?tx (Some [no_result])) 0)"
    by code_simp
  from 1 2 3 4 show ?thesis by simp
qed

subsection \<open>Sponsorship lookback\<close>

lemmas OperationType_defs =
  OperationTypeCreateAccount_def OperationTypePayment_def
  OperationTypePathPaymentStrictReceive_def OperationTypeManageSellOffer_def
  OperationTypeCreatePassiveSellOffer_def OperationTypeSetOptions_def
  OperationTypeChangeTrust_def OperationTypeAllowTrust_def OperationTypeAccountMerge_def
  OperationTypeInflation_def OperationTypeManageData_def OperationTypeBumpSequence_def
  OperationTypeManageBuyOffer_def OperationTypePathPaymentStrictSend_def
  OperationTypeCreateClaimableBalance_def OperationTypeClaimClaimableBalance_def
  OperationTypeBeginSponsoringFutureReserves_def OperationTypeEndSponsoringFutureReserves_def
  OperationTypeRevokeSponsorship_def OperationTypeClawback_def
  OperationTypeClawbackClaimableBalance_def OperationTypeSetTrustLineFlags_def

lemma lookback_Suc:
  "lookback env operations sponsoree (Suc n) =
     (if begins_sponsoring env sponsoree (operations ! n) then Some n
      else lookback env operations sponsoree n)"
  by (simp add: lookback_def)

lemma loop_lookback:
  "findInitatingBeginSponsoringOp_loop env operations sponsoree n = Returns r
     \<Longrightarrow> n \<le> length operations
       \<and> r = map_option (\<lambda>j. SponsorshipOutput (operations ! j) (of_nat j))
             (lookback env operations sponsoree n)"
proof (induction n)
  case 0
  then show ?case by (simp add: lookback_def)
next
  case (Suc n)
  from Suc.prems have n: "n < length operations"
    by (auto simp add: index_slice_def split: if_splits)
  show ?case
  proof (cases "begins_sponsoring env sponsoree (operations ! n)")
    case True
    with Suc.prems n show ?thesis
      by (auto simp add: lookback_Suc index_slice_def begins_sponsoring_def
          split: option.splits)
  next
    case False
    with Suc.prems n
    have "findInitatingBeginSponsoringOp_loop env operations sponsoree n = Returns r"
      by (auto simp add: index_slice_def begins_sponsoring_def split: option.splits if_splits)
    from Suc.IH [OF this] False n show ?thesis by (simp add: lookback_Suc)
  qed
qed

lemma ensureSlicesAreNotNil_BeginSponsor:
  "BeginSponsor (ensureSlicesAreNotNil d) = BeginSponsor d"
  by (simp add: ensureSlicesAreNotNil_def Let_def)

lemma switch_EndSponsoring:
  "Body_Type (Body operation) = OperationTypeEndSponsoringFutureReserves \<Longrightarrow>
   switch_operationType env operation tx i m a r d0
     = arm_EndSponsoringFutureReserves env operation tx i d0"
  by (simp add: switch_operationType_def Let_def OperationType_defs)

lemma extract_switch:
  assumes "extractOperationDetails env operation tx i = Returns (d, None)"
  shows "\<exists>a rs d0. GetAccountAddressFromMuxedAccount env
             (getOperationSourceAccount operation tx) = Inr a
         \<and> OperationResults (Result tx) = Some rs
         \<and> 0 \<le> sint i \<and> sint i < int (length rs)
         \<and> switch_operationType env operation tx i (getOperationSourceAccount operation tx)
              a (rs ! nat (sint i)) Details_zero = Returns (d0, None)
         \<and> d = ensureSlicesAreNotNil d0"
  using assms
  by (auto simp add: extractOperationDetails_def Let_def index_slice_def
      split: sum.splits option.splits go.splits prod.splits if_splits)

lemma arm_EndSponsoring_record:
  assumes "arm_EndSponsoringFutureReserves env operation tx i Details_zero = Returns (d, None)"
  shows "if Successful (Result tx) then
           nat (sint i) \<le> length (Operations (Envelope tx))
           \<and> (case lookback env (Operations (Envelope tx))
                      (ToAccountId (getOperationSourceAccount operation tx)) (nat (sint i)) of
                 None \<Rightarrow> BeginSponsor d = []
               | Some j \<Rightarrow> GetAccountAddressFromMuxedAccount env
                     (getOperationSourceAccount (Operations (Envelope tx) ! j) tx)
                   = Inr (BeginSponsor d))
         else BeginSponsor d = []"
proof (cases "Successful (Result tx)")
  case False
  with assms show ?thesis
    by (auto simp add: arm_EndSponsoringFutureReserves_def findInitatingBeginSponsoringOp_def
        Details_zero_def)
next
  case True
  from assms obtain r where
    r: "findInitatingBeginSponsoringOp env operation i tx = Returns r"
    by (auto simp add: arm_EndSponsoringFutureReserves_def split: go.splits)
  with True have "findInitatingBeginSponsoringOp_loop env (Operations (Envelope tx))
      (ToAccountId (getOperationSourceAccount operation tx)) (nat (sint i)) = Returns r"
    by (simp add: findInitatingBeginSponsoringOp_def Let_def)
  from loop_lookback [OF this] r assms True show ?thesis
    by (auto simp add: arm_EndSponsoringFutureReserves_def Details_zero_def
        split: option.splits sum.splits)
qed

text \<open>
  Claim C1. Let \<^verbatim>\<open>TransformOperation\<close> return a record for an end-sponsoring operation at
  index \<open>i\<close>. If the transaction succeeded, the indices \<open>i - 1\<close> down to \<open>0\<close> are
  all operations of the transaction, and with \<open>j\<close> the first of them, in that order, whose
  operation is a begin-sponsoring operation declaring as sponsored account the address of
  this operation's source, begin_sponsor is the address of the source account of operation
  \<open>j\<close> (its own, or else the transaction's); it is empty when there is no such index. If
  the transaction failed, begin_sponsor is empty.
\<close>

theorem sponsorship_lookback:
  assumes "TransformOperation env operation i tx seq = Returns (out, None)"
    and "Body_Type (Body operation) = OperationTypeEndSponsoringFutureReserves"
  shows "if Successful (Result tx) then
           nat (sint i) \<le> length (Operations (Envelope tx))
           \<and> (case lookback env (Operations (Envelope tx))
                      (ToAccountId (getOperationSourceAccount operation tx)) (nat (sint i)) of
                 None \<Rightarrow> BeginSponsor (OperationDetails out) = []
               | Some j \<Rightarrow> GetAccountAddressFromMuxedAccount env
                     (getOperationSourceAccount (Operations (Envelope tx) ! j) tx)
                   = Inr (BeginSponsor (OperationDetails out)))
         else BeginSponsor (OperationDetails out) = []"
proof -
  from TransformOperation_record [OF assms(1)]
  have "extractOperationDetails env operation tx i = Returns (OperationDetails out, None)"
    by simp
  from extract_switch [OF this] obtain a rs d0 where
    "switch_operationType env operation tx i (getOperationSourceAccount operation tx)
        a (rs ! nat (sint i)) Details_zero = Returns (d0, None)"
    and d: "OperationDetails out = ensureSlicesAreNotNil d0" by blast
  with assms(2) have "arm_EndSponsoringFutureReserves env operation tx i Details_zero
      = Returns (d0, None)" by (simp add: switch_EndSponsoring)
  from arm_EndSponsoring_record [OF this] have r:
    "if Successful (Result tx) then
       nat (sint i) \<le> length (Operations (Envelope tx))
       \<and> (case lookback env (Operations (Envelope tx))
                  (ToAccountId (getOperationSourceAccount operation tx)) (nat (sint i)) of
             None \<Rightarrow> BeginSponsor d0 = []
           | Some j \<Rightarrow> GetAccountAddressFromMuxedAccount env
                 (getOperationSourceAccount (Operations (Envelope tx) ! j) tx)
               = Inr (BeginSponsor d0))
     else BeginSponsor d0 = []" .
  have b: "BeginSponsor (OperationDetails out) = BeginSponsor d0"
    using d by (simp add: ensureSlicesAreNotNil_BeginSponsor)
  show ?thesis unfolding b by (rule r)
qed

text \<open>
  The example of the spec, Begin(sponsored = X), Payment(source = X), End(source = X): the
  sponsor is the source of the transaction when it succeeded, and empty when it failed.
\<close>

theorem sponsorship_lookback_witness:
  "(\<exists>out. TransformOperation example_externals end_X 2 (sponsoring_tx True) 5
            = Returns (out, None)
         \<and> BeginSponsor (OperationDetails out) = ''GS'')
   \<and> (\<exists>out. TransformOperation example_externals end_X 2 (sponsoring_tx False) 5
            = Returns (out, None)
         \<and> BeginSponsor (OperationDetails out) = [])"
proof -
  have t: "Body_Type (Body end_X) = OperationTypeEndSponsoringFutureReserves"
    by (simp add: end_X_def)
  have "succeeded (TransformOperation example_externals end_X 2 (sponsoring_tx True) 5)"
    by code_simp
  then obtain out where out: "TransformOperation example_externals end_X 2
      (sponsoring_tx True) 5 = Returns (out, None)"
    using succeeded_Returns by blast
  have s: "Successful (Result (sponsoring_tx True))" by (simp add: sponsoring_tx_def)
  have l: "lookback example_externals (Operations (Envelope (sponsoring_tx True)))
      (ToAccountId (getOperationSourceAccount end_X (sponsoring_tx True))) (nat (sint (2::int32)))
      = Some 0" by code_simp
  have g: "GetAccountAddressFromMuxedAccount example_externals
      (getOperationSourceAccount (Operations (Envelope (sponsoring_tx True)) ! 0)
         (sponsoring_tx True)) = Inr ''GS''" by code_simp
  from sponsorship_lookback [OF out t] s l g have 1: "BeginSponsor (OperationDetails out) = ''GS''"
    by simp
  have "succeeded (TransformOperation example_externals end_X 2 (sponsoring_tx False) 5)"
    by code_simp
  then obtain out' where out': "TransformOperation example_externals end_X 2
      (sponsoring_tx False) 5 = Returns (out', None)"
    using succeeded_Returns by blast
  have s': "\<not> Successful (Result (sponsoring_tx False))" by (simp add: sponsoring_tx_def)
  from sponsorship_lookback [OF out' t] s' have 2: "BeginSponsor (OperationDetails out') = []"
    by simp
  from out 1 out' 2 show ?thesis by blast
qed

subsection \<open>Path payment: the amount actually sent\<close>

lemma switch_StrictReceive:
  "Body_Type (Body operation) = OperationTypePathPaymentStrictReceive \<Longrightarrow>
   switch_operationType env operation tx i m a r d0
     = arm_PathPaymentStrictReceive env operation tx i a r d0"
  by (simp add: switch_operationType_def Let_def OperationType_defs)

lemma ensureSlicesAreNotNil_SourceAmount:
  "SourceAmount (ensureSlicesAreNotNil d) = SourceAmount d"
  by (simp add: ensureSlicesAreNotNil_def Let_def)

lemma addAssetDetails_SourceAmount:
  "SourceAmount (fst (addAssetDetailsToOperationDetails env d asset prefix)) = SourceAmount d"
  by (simp add: addAssetDetailsToOperationDetails_def Let_def split: sum.splits prod.splits)

lemma arm_StrictReceive_record:
  assumes "arm_PathPaymentStrictReceive env operation tx i a r Details_zero = Returns (d, None)"
  shows "if Successful (Result tx)
         then \<exists>res. strict_receive_result r = Some res
                \<and> SourceAmount d = ConvertStroopValueToReal (SendAmount res)
         else SourceAmount d = 0"
  using assms
  by (auto simp add: arm_PathPaymentStrictReceive_def Let_def strict_receive_result_def
      addAssetDetails_SourceAmount Details_zero_def
      split: option.splits sum.splits if_splits)

lemma arm_StrictReceive_missing:
  assumes "Successful (Result tx)" and "strict_receive_result r = None"
  shows "\<exists>e. arm_PathPaymentStrictReceive env operation tx i a r d0
           = Returns (Details_zero, Some e)"
  using assms
  by (auto simp add: arm_PathPaymentStrictReceive_def Let_def strict_receive_result_def
      split: option.splits sum.splits)

lemma arm_StrictReceive_failed:
  assumes "\<not> Successful (Result tx)" and "\<not> Successful (Result tx')"
  shows "arm_PathPaymentStrictReceive env operation tx' i a r' d0
           = arm_PathPaymentStrictReceive env operation tx i a r d0"
  using assms
  by (simp add: arm_PathPaymentStrictReceive_def Let_def split: option.splits sum.splits)

lemma with_results_simps:
  "Index (with_results tx x) = Index tx"
  "Envelope (with_results tx x) = Envelope tx"
  "Successful (Result (with_results tx x)) = Successful (Result tx)"
  "OperationResults (Result (with_results tx x)) = x"
  "getOperationSourceAccount operation (with_results tx x)
     = getOperationSourceAccount operation tx"
  by (simp_all add: with_results_def getOperationSourceAccount_def split: option.splits)

lemma extract_StrictReceive_failed:
  assumes t: "Body_Type (Body operation) = OperationTypePathPaymentStrictReceive"
    and f: "\<not> Successful (Result tx)"
    and r: "OperationResults (Result tx) = Some rs" and l: "length rs' = length rs"
  shows "extractOperationDetails env operation (with_results tx (Some rs')) i
           = extractOperationDetails env operation tx i"
proof -
  have "arm_PathPaymentStrictReceive env operation (with_results tx (Some rs')) i a x d0
      = arm_PathPaymentStrictReceive env operation tx i a (rs ! nat (sint i)) d0" for a x d0
    by (rule arm_StrictReceive_failed) (simp_all add: f with_results_simps)
  then show ?thesis
    by (simp add: extractOperationDetails_def Let_def with_results_simps r l
        switch_StrictReceive [OF t] index_slice_def split: sum.splits)
qed


lemma TransformOperation_with_results:
  assumes "extractOperationDetails env operation (with_results tx x) i
             = extractOperationDetails env operation tx i"
  shows "TransformOperation env operation i (with_results tx x) seq
           = TransformOperation env operation i tx seq"
  using assms
  by (simp add: TransformOperation_def Let_def with_results_simps split: sum.splits)

lemma TransformOperation_extract_error:
  assumes "\<exists>e. extractOperationDetails env operation tx i = Returns (Details_zero, Some e)"
    and "0 \<le> sint (Body_Type (Body operation))"
  shows "\<exists>e. TransformOperation env operation i tx seq = Returns (OperationOutput_zero, Some e)"
  using assms by (auto simp add: TransformOperation_def Let_def split: sum.splits)

lemma extract_StrictReceive_missing:
  assumes t: "Body_Type (Body operation) = OperationTypePathPaymentStrictReceive"
    and s: "Successful (Result tx)"
    and r: "OperationResults (Result tx) = Some rs"
    and i: "0 \<le> sint i" "sint i < int (length rs)"
    and m: "strict_receive_result (rs ! nat (sint i)) = None"
  shows "\<exists>e. extractOperationDetails env operation tx i = Returns (Details_zero, Some e)"
proof (cases "GetAccountAddressFromMuxedAccount env (getOperationSourceAccount operation tx)")
  case (Inl e)
  then show ?thesis by (simp add: extractOperationDetails_def Let_def)
next
  case (Inr a)
  from arm_StrictReceive_missing [OF s m] obtain e where
    "arm_PathPaymentStrictReceive env operation tx i a (rs ! nat (sint i)) Details_zero
       = Returns (Details_zero, Some e)" by blast
  with Inr r i show ?thesis
    by (simp add: extractOperationDetails_def Let_def index_slice_def
        switch_StrictReceive [OF t])
qed

lemma extract_no_results:
  assumes "OperationResults (Result tx) = None"
  shows "\<exists>e. extractOperationDetails env operation tx i = Returns (Details_zero, Some e)"
  using assms by (simp add: extractOperationDetails_def Let_def split: sum.splits)

lemma TransformOperation_index_panic:
  assumes "OperationResults (Result tx) = Some rs"
    and "GetAccountAddressFromMuxedAccount env (getOperationSourceAccount operation tx)
           = Inr a"
    and "\<not> (0 \<le> sint i \<and> sint i < int (length rs))"
    and "0 \<le> sint (Body_Type (Body operation))"
  shows "TransformOperation env operation i tx seq
           = Panic (IndexOutOfRange ''allOperationResults'')"
  using assms
  by (auto simp add: TransformOperation_def extractOperationDetails_def Let_def
      index_slice_def)

text \<open>
  Claim C2, amended. For a path-payment strict-receive operation the results of the
  transaction are fetched and indexed at the operation index whether the transaction
  succeeded or failed: without results the transformation returns an error, and with a
  results list that the index does not fall into the run panics. When the transaction
  succeeded, a returned record has as source_amount the send amount of the operation's own
  execution result, converted from stroops, whatever the declared send-max, and a result
  at the operation index that holds no strict-receive result makes the transformation
  return an error. When the transaction failed, a returned record has source_amount zero,
  and the outcome is the same whatever the results hold, for results of the same number.
\<close>

theorem strict_receive_source_amount:
  assumes t: "Body_Type (Body operation) = OperationTypePathPaymentStrictReceive"
  shows
  "(Successful (Result tx) \<and> TransformOperation env operation i tx seq = Returns (out, None)
      \<longrightarrow> (\<exists>rs res. OperationResults (Result tx) = Some rs
             \<and> 0 \<le> sint i \<and> sint i < int (length rs)
             \<and> strict_receive_result (rs ! nat (sint i)) = Some res
             \<and> SourceAmount (OperationDetails out) = ConvertStroopValueToReal (SendAmount res)))
   \<and> (OperationResults (Result tx) = None
      \<longrightarrow> (\<exists>e. TransformOperation env operation i tx seq
                 = Returns (OperationOutput_zero, Some e)))
   \<and> (OperationResults (Result tx) = Some rs
        \<and> GetAccountAddressFromMuxedAccount env (getOperationSourceAccount operation tx)
            = Inr a
        \<and> \<not> (0 \<le> sint i \<and> sint i < int (length rs))
      \<longrightarrow> TransformOperation env operation i tx seq
            = Panic (IndexOutOfRange ''allOperationResults''))
   \<and> (Successful (Result tx) \<and> OperationResults (Result tx) = Some rs
        \<and> 0 \<le> sint i \<and> sint i < int (length rs)
        \<and> strict_receive_result (rs ! nat (sint i)) = None
      \<longrightarrow> (\<exists>e. TransformOperation env operation i tx seq
                 = Returns (OperationOutput_zero, Some e)))
   \<and> (\<not> Successful (Result tx)
        \<and> TransformOperation env operation i tx seq = Returns (out, None)
      \<longrightarrow> SourceAmount (OperationDetails out) = 0)
   \<and> (\<not> Successful (Result tx) \<and> OperationResults (Result tx) = Some rs
        \<and> length rs' = length rs
      \<longrightarrow> TransformOperation env operation i (with_results tx (Some rs')) seq
            = TransformOperation env operation i tx seq)"
proof -
  have n: "0 \<le> sint (Body_Type (Body operation))"
    by (simp add: t OperationTypePathPaymentStrictReceive_def)
  have rec: "if Successful (Result tx)
      then \<exists>rs res. OperationResults (Result tx) = Some rs
             \<and> 0 \<le> sint i \<and> sint i < int (length rs)
             \<and> strict_receive_result (rs ! nat (sint i)) = Some res
             \<and> SourceAmount (OperationDetails out) = ConvertStroopValueToReal (SendAmount res)
      else SourceAmount (OperationDetails out) = 0"
    if o: "TransformOperation env operation i tx seq = Returns (out, None)"
  proof -
    from TransformOperation_record [OF o]
    have "extractOperationDetails env operation tx i = Returns (OperationDetails out, None)"
      by simp
    from extract_switch [OF this] obtain a rs d0 where
      r: "OperationResults (Result tx) = Some rs" "0 \<le> sint i" "sint i < int (length rs)"
      and sw: "switch_operationType env operation tx i (getOperationSourceAccount operation tx)
          a (rs ! nat (sint i)) Details_zero = Returns (d0, None)"
      and d: "OperationDetails out = ensureSlicesAreNotNil d0" by blast
    from sw have "arm_PathPaymentStrictReceive env operation tx i a (rs ! nat (sint i))
        Details_zero = Returns (d0, None)" by (simp add: switch_StrictReceive [OF t])
    from arm_StrictReceive_record [OF this] r d show ?thesis
      by (auto simp add: ensureSlicesAreNotNil_SourceAmount)
  qed
  have 1: "Successful (Result tx) \<and> TransformOperation env operation i tx seq = Returns (out, None)
      \<longrightarrow> (\<exists>rs res. OperationResults (Result tx) = Some rs
             \<and> 0 \<le> sint i \<and> sint i < int (length rs)
             \<and> strict_receive_result (rs ! nat (sint i)) = Some res
             \<and> SourceAmount (OperationDetails out) = ConvertStroopValueToReal (SendAmount res))"
    using rec by auto
  have 5: "\<not> Successful (Result tx)
        \<and> TransformOperation env operation i tx seq = Returns (out, None)
      \<longrightarrow> SourceAmount (OperationDetails out) = 0"
    using rec by auto
  have 2: "OperationResults (Result tx) = None
      \<longrightarrow> (\<exists>e. TransformOperation env operation i tx seq
                 = Returns (OperationOutput_zero, Some e))"
    using extract_no_results [of tx env operation i]
      TransformOperation_extract_error [OF _ n] by blast
  have 3: "OperationResults (Result tx) = Some rs
        \<and> GetAccountAddressFromMuxedAccount env (getOperationSourceAccount operation tx)
            = Inr a
        \<and> \<not> (0 \<le> sint i \<and> sint i < int (length rs))
      \<longrightarrow> TransformOperation env operation i tx seq
            = Panic (IndexOutOfRange ''allOperationResults'')"
    using TransformOperation_index_panic [OF _ _ _ n] by blast
  have 4: "Successful (Result tx) \<and> OperationResults (Result tx) = Some rs
        \<and> 0 \<le> sint i \<and> sint i < int (length rs)
        \<and> strict_receive_result (rs ! nat (sint i)) = None
      \<longrightarrow> (\<exists>e. TransformOperation env operation i tx seq
                 = Returns (OperationOutput_zero, Some e))"
    using extract_StrictReceive_missing [OF t] TransformOperation_extract_error [OF _ n]
    by blast
  have 6: "\<not> Successful (Result tx) \<and> OperationResults (Result tx) = Some rs
        \<and> length rs' = length rs
      \<longrightarrow> TransformOperation env operation i (with_results tx (Some rs')) seq
            = TransformOperation env operation i tx seq"
    using extract_StrictReceive_failed [OF t] TransformOperation_with_results by blast
  from 1 2 3 4 5 6 show ?thesis by blast
qed

text \<open>
  Claim C2 as stated fails on a failed transaction: the results are looked up all the
  same. The same strict-receive operation of a failed transaction gets a record when the
  transaction has a result for it, and the missing-results error when it has none.
\<close>

theorem strict_receive_failed_counterexample:
  "\<not> Successful (Result (example_tx False [receive_op] None))
   \<and> error_of (TransformOperation example_externals receive_op 0
        (example_tx False [receive_op] None) 5) = Some CouldNotAccessResults
   \<and> succeeded (TransformOperation example_externals receive_op 0
        (example_tx False [receive_op] (Some [no_result])) 5)"
  by code_simp

text \<open>
  The example of the spec: a result with send amount 42.5 under a send-max of 100; the same
  operation with a result that holds nothing, without results, and with an empty results
  list; and in a failed transaction.
\<close>

theorem strict_receive_source_amount_witness:
  "(\<exists>out. TransformOperation example_externals receive_op 0
            (example_tx True [receive_op] (Some [sent_42_5])) 5 = Returns (out, None)
        \<and> SourceAmount (OperationDetails out) = 85 / 2
        \<and> SourceMax (OperationDetails out) = 100)
   \<and> (\<exists>e. TransformOperation example_externals receive_op 0
            (example_tx True [receive_op] (Some [no_result])) 5
          = Returns (OperationOutput_zero, Some e))
   \<and> (\<exists>e. TransformOperation example_externals receive_op 0
            (example_tx True [receive_op] None) 5
          = Returns (OperationOutput_zero, Some e))
   \<and> TransformOperation example_externals receive_op 0
        (example_tx True [receive_op] (Some [])) 5
     = Panic (IndexOutOfRange ''allOperationResults'')
   \<and> (\<exists>out. TransformOperation example_externals receive_op 0
            (example_tx False [receive_op] (Some [no_result])) 5 = Returns (out, None)
        \<and> SourceAmount (OperationDetails out) = 0)
   \<and> TransformOperation example_externals receive_op 0
        (with_results (example_tx False [receive_op] (Some [no_result])) (Some [sent_42_5])) 5
     = TransformOperation example_externals receive_op 0
        (example_tx False [receive_op] (Some [no_result])) 5"
proof -
  let ?ok = "example_tx True [receive_op] (Some [sent_42_5])"
  let ?missing = "example_tx True [receive_op] (Some [no_result])"
  let ?absent = "example_tx True [receive_op] None"
  let ?short = "example_tx True [receive_op] (Some [])"
  let ?failed = "example_tx False [receive_op] (Some [no_result])"
  have t: "Body_Type (Body receive_op) = OperationTypePathPaymentStrictReceive"
    by (simp add: receive_op_def)
  have "succeeded (TransformOperation example_externals receive_op 0 ?ok 5)"
    by code_simp
  then obtain out where out:
    "TransformOperation example_externals receive_op 0 ?ok 5 = Returns (out, None)"
    using succeeded_Returns by blast
  have ok: "Successful (Result ?ok)" "OperationResults (Result ?ok) = Some [sent_42_5]"
    by (simp_all add: example_tx_def)
  have res: "strict_receive_result sent_42_5 = Some (PathPaymentStrictReceiveResult 425000000)"
    by (simp add: strict_receive_result_def sent_42_5_def GetPathPaymentStrictReceiveResult_def)
  from strict_receive_source_amount [OF t, of ?ok example_externals 0 5 out] ok out res
  have "SourceAmount (OperationDetails out) = ConvertStroopValueToReal 425000000"
    by auto
  then have 1: "SourceAmount (OperationDetails out) = 85 / 2"
    by (simp add: ConvertStroopValueToReal_def)
  have "map_option (SourceMax \<circ> OperationDetails)
      (record_of (TransformOperation example_externals receive_op 0 ?ok 5)) = Some 100"
    by code_simp
  with out have mx: "SourceMax (OperationDetails out) = 100" by (simp add: record_of_def)
  have m: "Successful (Result ?missing)" "OperationResults (Result ?missing) = Some [no_result]"
    "strict_receive_result ([no_result] ! nat (sint (0::int32))) = None"
    by (simp_all add: example_tx_def strict_receive_result_def no_result_def)
  from strict_receive_source_amount [OF t, of ?missing example_externals 0 5 _ "[no_result]"] m
  have 2: "\<exists>e. TransformOperation example_externals receive_op 0 ?missing 5
      = Returns (OperationOutput_zero, Some e)"
    by simp
  have ab: "OperationResults (Result ?absent) = None" by (simp add: example_tx_def)
  from strict_receive_source_amount [OF t, of ?absent example_externals 0 5] ab
  have 3: "\<exists>e. TransformOperation example_externals receive_op 0 ?absent 5
      = Returns (OperationOutput_zero, Some e)"
    by simp
  have sh: "OperationResults (Result ?short) = Some []"
    "GetAccountAddressFromMuxedAccount example_externals
       (getOperationSourceAccount receive_op ?short) = Inr ''GS''"
    by (simp_all add: example_tx_def example_externals_def example_address_def
        getOperationSourceAccount_def receive_op_def)
  from strict_receive_source_amount [OF t, of ?short example_externals 0 5 _ "[]" "''GS''"] sh
  have 4: "TransformOperation example_externals receive_op 0 ?short 5
      = Panic (IndexOutOfRange ''allOperationResults'')"
    by simp
  have "succeeded (TransformOperation example_externals receive_op 0 ?failed 5)"
    by code_simp
  then obtain out' where out':
    "TransformOperation example_externals receive_op 0 ?failed 5 = Returns (out', None)"
    using succeeded_Returns by blast
  have f: "\<not> Successful (Result ?failed)"
    "OperationResults (Result ?failed) = Some [no_result]"
    by (simp_all add: example_tx_def)
  from strict_receive_source_amount [OF t, of ?failed example_externals 0 5 out'] f out'
  have 5: "SourceAmount (OperationDetails out') = 0" by simp
  from strict_receive_source_amount [OF t, of ?failed example_externals 0 5 _ "[no_result]" _
      "[sent_42_5]"] f
  have 6: "TransformOperation example_externals receive_op 0
        (with_results ?failed (Some [sent_42_5])) 5
     = TransformOperation example_externals receive_op 0 ?failed 5" by simp
  from out 1 mx 2 3 4 out' 5 6 show ?thesis by blast
qed

subsection \<open>Path normalization\<close>

lemma transformPath_loop_those:
  "transformPath_loop env (Some acc) path =
     (case those (map (path_entry env) path) of
        None \<Rightarrow> None | Some entries \<Rightarrow> Some (acc @ entries))"
proof (induction path arbitrary: acc)
  case Nil
  then show ?case by simp
next
  case (Cons a path)
  show ?case
  proof (cases "Asset_Extract env a")
    case (Inl e)
    then show ?thesis by (simp add: path_entry_def)
  next
    case (Inr x)
    obtain t c i where x: "x = (t, c, i)" by (cases x) auto
    with Inr Cons.IH [of "acc @ [MkPath t i c]"] show ?thesis
      by (simp add: path_entry_def append_slice_def elems_def split: option.splits)
  qed
qed

lemma transformPath_normalized:
  "elems (transformPath env path) = normalized_path env path"
  by (cases path)
     (simp_all add: transformPath_def transformPath_loop_those normalized_path_def elems_def
        del: transformPath_loop.simps split: option.splits)

lemma ensureSlicesAreNotNil_Path:
  "Path (ensureSlicesAreNotNil d) = Some (elems (Path d))"
  by (simp add: ensureSlicesAreNotNil_def Let_def elems_def split: option.splits)

lemma normalized_path_all:
  "list_all (\<lambda>a. path_entry env a \<noteq> None) path
     \<Longrightarrow> map Some (normalized_path env path) = map (path_entry env) path"
proof (induction path)
  case Nil
  then show ?case by (simp add: normalized_path_def)
next
  case (Cons a path)
  then show ?case
    by (auto simp add: normalized_path_def split: option.splits)
qed

lemma switch_StrictSend:
  "Body_Type (Body operation) = OperationTypePathPaymentStrictSend \<Longrightarrow>
   switch_operationType env operation tx i m a r d0
     = arm_PathPaymentStrictSend env operation tx i a r d0"
  by (simp add: switch_operationType_def Let_def OperationType_defs)

lemma arm_StrictReceive_Path:
  assumes "arm_PathPaymentStrictReceive env operation tx i a r d0 = Returns (d, None)"
    and "GetPathPaymentStrictReceiveOp (Body operation) = Some p"
  shows "Path d = transformPath env (StrictReceive_Path p)"
  using assms
  by (auto simp add: arm_PathPaymentStrictReceive_def Let_def
      split: option.splits sum.splits if_splits)

lemma arm_StrictSend_Path:
  assumes "arm_PathPaymentStrictSend env operation tx i a r d0 = Returns (d, None)"
    and "GetPathPaymentStrictSendOp (Body operation) = Some p"
  shows "Path d = transformPath env (StrictSend_Path p)"
  using assms
  by (auto simp add: arm_PathPaymentStrictSend_def Let_def
      split: option.splits sum.splits if_splits)

text \<open>
  Claim C7. In every record returned for a path-payment operation (strict receive or strict
  send) whose path assets can all be extracted, the path of the record has the length and
  the order of the operation's path, each element made of the type, code and issuer
  extracted from the asset at the same position; and an empty path of the operation gives
  a path that is present and empty.
\<close>

theorem path_normalization:
  assumes o: "TransformOperation env operation i tx seq = Returns (out, None)"
  shows
  "(Body_Type (Body operation) = OperationTypePathPaymentStrictReceive
      \<and> GetPathPaymentStrictReceiveOp (Body operation) = Some p
      \<and> list_all (\<lambda>a. path_entry env a \<noteq> None) (StrictReceive_Path p)
     \<longrightarrow> Path (OperationDetails out) \<noteq> None
        \<and> length (elems (Path (OperationDetails out))) = length (StrictReceive_Path p)
        \<and> map Some (elems (Path (OperationDetails out)))
          = map (path_entry env) (StrictReceive_Path p))
   \<and> (Body_Type (Body operation) = OperationTypePathPaymentStrictSend
      \<and> GetPathPaymentStrictSendOp (Body operation) = Some q
      \<and> list_all (\<lambda>a. path_entry env a \<noteq> None) (StrictSend_Path q)
     \<longrightarrow> Path (OperationDetails out) \<noteq> None
        \<and> length (elems (Path (OperationDetails out))) = length (StrictSend_Path q)
        \<and> map Some (elems (Path (OperationDetails out)))
          = map (path_entry env) (StrictSend_Path q))
   \<and> (Body_Type (Body operation) = OperationTypePathPaymentStrictReceive
      \<and> GetPathPaymentStrictReceiveOp (Body operation) = Some p
      \<and> StrictReceive_Path p = []
     \<longrightarrow> Path (OperationDetails out) = Some [])
   \<and> (Body_Type (Body operation) = OperationTypePathPaymentStrictSend
      \<and> GetPathPaymentStrictSendOp (Body operation) = Some q
      \<and> StrictSend_Path q = []
     \<longrightarrow> Path (OperationDetails out) = Some [])"
proof -
  from TransformOperation_record [OF o]
  have "extractOperationDetails env operation tx i = Returns (OperationDetails out, None)"
    by simp
  from extract_switch [OF this] obtain a rs d0 where
    sw: "switch_operationType env operation tx i (getOperationSourceAccount operation tx)
        a (rs ! nat (sint i)) Details_zero = Returns (d0, None)"
    and d: "OperationDetails out = ensureSlicesAreNotNil d0" by blast
  have 1: "Path (OperationDetails out) = Some (normalized_path env (StrictReceive_Path p))"
    if "Body_Type (Body operation) = OperationTypePathPaymentStrictReceive"
      and p: "GetPathPaymentStrictReceiveOp (Body operation) = Some p"
  proof -
    from sw that(1) have "arm_PathPaymentStrictReceive env operation tx i a
        (rs ! nat (sint i)) Details_zero = Returns (d0, None)"
      by (simp add: switch_StrictReceive)
    from arm_StrictReceive_Path [OF this p] d show ?thesis
      by (simp add: ensureSlicesAreNotNil_Path transformPath_normalized)
  qed
  have 2: "Path (OperationDetails out) = Some (normalized_path env (StrictSend_Path q))"
    if "Body_Type (Body operation) = OperationTypePathPaymentStrictSend"
      and q: "GetPathPaymentStrictSendOp (Body operation) = Some q"
  proof -
    from sw that(1) have "arm_PathPaymentStrictSend env operation tx i a
        (rs ! nat (sint i)) Details_zero = Returns (d0, None)"
      by (simp add: switch_StrictSend)
    from arm_StrictSend_Path [OF this q] d show ?thesis
      by (simp add: ensureSlicesAreNotNil_Path transformPath_normalized)
  qed
  have 3: "length (normalized_path env path) = length path"
    if "list_all (\<lambda>a. path_entry env a \<noteq> None) path" for path
    using normalized_path_all [OF that] by (metis length_map)
  have 5: "normalized_path env [] = []" by (simp add: normalized_path_def)
  have r: "Body_Type (Body operation) = OperationTypePathPaymentStrictReceive
      \<and> GetPathPaymentStrictReceiveOp (Body operation) = Some p
      \<and> list_all (\<lambda>a. path_entry env a \<noteq> None) (StrictReceive_Path p)
     \<longrightarrow> Path (OperationDetails out) \<noteq> None
        \<and> length (elems (Path (OperationDetails out))) = length (StrictReceive_Path p)
        \<and> map Some (elems (Path (OperationDetails out)))
          = map (path_entry env) (StrictReceive_Path p)"
    using 1 3 [of "StrictReceive_Path p"] normalized_path_all [of env "StrictReceive_Path p"]
    by (simp add: elems_def)
  have s: "Body_Type (Body operation) = OperationTypePathPaymentStrictSend
      \<and> GetPathPaymentStrictSendOp (Body operation) = Some q
      \<and> list_all (\<lambda>a. path_entry env a \<noteq> None) (StrictSend_Path q)
     \<longrightarrow> Path (OperationDetails out) \<noteq> None
        \<and> length (elems (Path (OperationDetails out))) = length (StrictSend_Path q)
        \<and> map Some (elems (Path (OperationDetails out)))
          = map (path_entry env) (StrictSend_Path q)"
    using 2 3 [of "StrictSend_Path q"] normalized_path_all [of env "StrictSend_Path q"]
    by (simp add: elems_def)
  from r s 1 2 5 show ?thesis by simp
qed

text \<open>A path of two assets, and the empty path.\<close>

theorem path_normalization_witness:
  "(\<exists>out. TransformOperation example_externals receive_good_path_op 0
            (example_tx False [receive_good_path_op] (Some [no_result])) 5
          = Returns (out, None)
        \<and> Path (OperationDetails out)
          = Some [MkPath ''credit_alphanum4'' ''GI'' ''USD'', MkPath ''native'' [] []])
   \<and> (\<exists>out. TransformOperation example_externals receive_op 0
            (example_tx False [receive_op] (Some [no_result])) 5 = Returns (out, None)
        \<and> Path (OperationDetails out) = Some [])"
proof -
  let ?tx = "example_tx False [receive_good_path_op] (Some [no_result])"
  let ?p = "PathPaymentStrictReceiveOp native 1000000000 (KeyTypeEd25519 ''GD'') usd 500000000
           [usd, native]"
  have t: "Body_Type (Body receive_good_path_op) = OperationTypePathPaymentStrictReceive"
    "GetPathPaymentStrictReceiveOp (Body receive_good_path_op) = Some ?p"
    by (simp_all add: receive_good_path_op_def GetPathPaymentStrictReceiveOp_def)
  have "succeeded (TransformOperation example_externals receive_good_path_op 0 ?tx 5)"
    by code_simp
  then obtain out where out:
    "TransformOperation example_externals receive_good_path_op 0 ?tx 5 = Returns (out, None)"
    using succeeded_Returns by blast
  have a: "list_all (\<lambda>a. path_entry example_externals a \<noteq> None) [usd, native]"
    by code_simp
  have n: "map (path_entry example_externals) [usd, native]
      = map Some [MkPath ''credit_alphanum4'' ''GI'' ''USD'', MkPath ''native'' [] []]"
    by code_simp
  from path_normalization [OF out, of ?p] t a
  have "Path (OperationDetails out) \<noteq> None"
    "map Some (elems (Path (OperationDetails out))) = map (path_entry example_externals)
       [usd, native]"
    by simp_all
  with n have 1: "Path (OperationDetails out)
      = Some [MkPath ''credit_alphanum4'' ''GI'' ''USD'', MkPath ''native'' [] []]"
    by (auto simp add: elems_def)
  let ?tx' = "example_tx False [receive_op] (Some [no_result])"
  let ?p' = "PathPaymentStrictReceiveOp native 1000000000 (KeyTypeEd25519 ''GD'') usd
      500000000 []"
  have t': "Body_Type (Body receive_op) = OperationTypePathPaymentStrictReceive"
    "GetPathPaymentStrictReceiveOp (Body receive_op) = Some ?p'"
    by (simp_all add: receive_op_def GetPathPaymentStrictReceiveOp_def)
  have "succeeded (TransformOperation example_externals receive_op 0 ?tx' 5)"
    by code_simp
  then obtain out' where out':
    "TransformOperation example_externals receive_op 0 ?tx' 5 = Returns (out', None)"
    using succeeded_Returns by blast
  from path_normalization [OF out', of ?p'] t'
  have 2: "Path (OperationDetails out') = Some []"
    by simp
  from out 1 out' 2 show ?thesis by blast
qed

subsection \<open>Errors of asset extraction\<close>















subsection \<open>Identifier ordering\<close>

lemma toid_low_bounds:
  fixes a b :: int
  shows "0 \<le> (a mod 2 ^ tb) * 2 ^ ob + b mod 2 ^ ob"
    and "(a mod 2 ^ tb) * 2 ^ ob + b mod 2 ^ ob < 2 ^ (tb + ob)"
proof -
  have x: "0 \<le> a mod 2 ^ tb" "a mod 2 ^ tb \<le> 2 ^ tb - 1"
    using pos_mod_bound [of "2 ^ tb" a] by simp_all
  have y: "0 \<le> b mod 2 ^ ob" "b mod 2 ^ ob < 2 ^ ob"
    by simp_all
  from x(1) y(1) show "0 \<le> (a mod 2 ^ tb) * 2 ^ ob + b mod 2 ^ ob" by simp
  have "(a mod 2 ^ tb) * 2 ^ ob \<le> (2 ^ tb - 1) * (2::int) ^ ob"
    using x(2) by (rule mult_right_mono) simp
  also have "\<dots> = 2 ^ (tb + ob) - 2 ^ ob"
    by (simp add: power_add algebra_simps)
  finally show "(a mod 2 ^ tb) * 2 ^ ob + b mod 2 ^ ob < 2 ^ (tb + ob)"
    using y(2) by linarith
qed

lemma sint_toid_ToInt64:
  assumes w: "tb + ob \<le> 32" and l: "0 \<le> sint ledger"
  shows "sint (toid_ToInt64 tb ob ledger tx opn)
           = sint ledger * 2 ^ (tb + ob) + (uint tx mod 2 ^ tb) * 2 ^ ob + uint opn mod 2 ^ ob"
proof -
  let ?low = "(uint tx mod 2 ^ tb) * 2 ^ ob + uint opn mod 2 ^ ob"
  let ?v = "sint ledger * 2 ^ (tb + ob) + ?low"
  have low: "0 \<le> ?low" "?low < 2 ^ (tb + ob)"
    using toid_low_bounds [of "uint tx" tb ob "uint opn"] by simp_all
  have "sint ledger < 2 ^ 31" using sint_lt [of ledger] by simp
  then have "sint ledger + 1 \<le> 2 ^ 31" by simp
  then have "(sint ledger + 1) * 2 ^ (tb + ob) \<le> 2 ^ 31 * (2::int) ^ (tb + ob)"
    by (rule mult_right_mono) simp
  also have "\<dots> = 2 ^ (31 + (tb + ob))" by (simp add: power_add)
  also have "\<dots> \<le> (2::int) ^ 63" using w by (intro power_increasing) simp_all
  finally have "(sint ledger + 1) * 2 ^ (tb + ob) \<le> (2::int) ^ 63" .
  then have up: "?v < 2 ^ 63" using low(2) by (simp add: algebra_simps)
  have "0 \<le> sint ledger * 2 ^ (tb + ob)" using l by simp
  moreover have "- (2 ^ 63) \<le> (0::int)" by simp
  ultimately have lo: "- (2 ^ 63) \<le> ?v" using low(1) by linarith
  have "sint (toid_ToInt64 tb ob ledger tx opn) = signed_take_bit 63 ?v"
    by (simp only: toid_ToInt64_def sint_sbintrunc') (simp add: add.assoc)
  also have "\<dots> = ?v" using lo up by (rule signed_take_bit_int_eq_self)
  finally show ?thesis by (simp add: add.assoc)
qed


lemma uint_succ_index:
  assumes "0 \<le> sint (i::int32)"
  shows "uint (i + 1) = sint i + 1"
proof -
  have b: "0 \<le> uint i" "uint i < 2 ^ 32" using uint_lt2p [of i] by simp_all
  have sg: "sint i = (uint i + 2 ^ 31) mod 2 ^ 32 - 2 ^ 31"
    using int_word_sint [of "uint i", where ?'a = 32] by simp
  have u: "uint i = sint i"
  proof (cases "uint i < 2 ^ 31")
    case True
    with b(1) have "(uint i + 2 ^ 31) mod 2 ^ 32 = uint i + 2 ^ 31"
      by (simp add: mod_pos_pos_trivial)
    with sg show ?thesis by simp
  next
    case False
    have "(uint i + 2 ^ 31) mod 2 ^ 32 = (uint i + 2 ^ 31 - 2 ^ 32) mod 2 ^ 32"
      by (simp only: minus_mod_self2)
    also have "\<dots> = uint i + 2 ^ 31 - 2 ^ 32"
      using False b(2) by (simp add: mod_pos_pos_trivial)
    finally have "sint i = uint i - 2 ^ 32" using sg by simp
    with b(2) assms show ?thesis by simp
  qed
  have "sint i < 2 ^ 31" using sint_lt [of i] by simp
  with u have "uint i + uint (1::int32) < 2 ^ LENGTH(32)" by simp
  then have "uint (i + 1) = uint i + uint (1::int32)" by (simp only: uint_add_lem)
  with u show ?thesis by simp
qed

lemma toid_operation_field:
  assumes "0 \<le> sint (i::int32)" and "sint i + 1 < 2 ^ ob"
  shows "uint (i + 1) mod 2 ^ ob = sint i + 1"
  using assms by (simp add: uint_succ_index)

text \<open>
  Claim C4. Take two records returned by \<^verbatim>\<open>TransformOperation\<close>, for ledger sequences that
  are not negative, with an identifier whose transaction and operation fields have at most
  32 bits together. Within one transaction (same ledger sequence and transaction index) the
  operation id strictly increases with the operation index, for indices from 0 whose
  successor fits the operation field. A greater ledger sequence gives greater operation
  and transaction ids, whatever the transaction and operation indices. And the transaction
  id of a record is smaller than its operation id, for an index from 0 whose successor fits
  the operation field.
\<close>

theorem identifier_ordering:
  assumes w: "toid_TransactionBits env + toid_OperationBits env \<le> 32"
    and o: "TransformOperation env operation i tx seq = Returns (out, None)"
    and o': "TransformOperation env operation' i' tx' seq' = Returns (out', None)"
    and s: "0 \<le> sint seq" "0 \<le> sint seq'"
  shows
  "(seq' = seq \<and> Index tx' = Index tx \<and> 0 \<le> sint i \<and> sint i < sint i'
      \<and> sint i' + 1 < 2 ^ toid_OperationBits env
     \<longrightarrow> sint (OperationID out) < sint (OperationID out'))
   \<and> (sint seq < sint seq'
     \<longrightarrow> sint (OperationID out) < sint (OperationID out')
        \<and> sint (TransactionID out) < sint (TransactionID out')
        \<and> sint (OperationID out) < sint (TransactionID out')
        \<and> sint (TransactionID out) < sint (OperationID out'))
   \<and> (0 \<le> sint i \<and> sint i + 1 < 2 ^ toid_OperationBits env
     \<longrightarrow> sint (TransactionID out) < sint (OperationID out))"
proof -
  let ?tb = "toid_TransactionBits env" and ?ob = "toid_OperationBits env"
  let ?low = "\<lambda>t n. (uint (t::int32) mod 2 ^ ?tb) * 2 ^ ?ob + uint (n::int32) mod 2 ^ ?ob"
  from TransformOperation_record [OF o]
  have ids: "TransactionID out = toid env seq (Index tx) 0"
    "OperationID out = toid env seq (Index tx) (i + 1)" by simp_all
  from TransformOperation_record [OF o']
  have ids': "TransactionID out' = toid env seq' (Index tx') 0"
    "OperationID out' = toid env seq' (Index tx') (i' + 1)" by simp_all
  have v: "sint (toid env seq t n) = sint seq * 2 ^ (?tb + ?ob) + ?low t n" for t n
    using sint_toid_ToInt64 [OF w s(1)] by (simp add: toid_def)
  have v': "sint (toid env seq' t n) = sint seq' * 2 ^ (?tb + ?ob) + ?low t n" for t n
    using sint_toid_ToInt64 [OF w s(2)] by (simp add: toid_def)
  have low: "0 \<le> ?low t n" "?low t n < 2 ^ (?tb + ?ob)" for t n
    using toid_low_bounds [of "uint t" ?tb ?ob "uint n"] by simp_all
  have 1: "sint (OperationID out) < sint (OperationID out')"
    if "seq' = seq" "Index tx' = Index tx" "0 \<le> sint i" "sint i < sint i'"
      "sint i' + 1 < 2 ^ ?ob"
  proof -
    from that have "uint (i + 1) mod 2 ^ ?ob = sint i + 1"
      "uint (i' + 1) mod 2 ^ ?ob = sint i' + 1"
      by (simp_all add: toid_operation_field)
    with that show ?thesis by (simp add: ids ids' v)
  qed
  have 2: "sint (toid env seq t n) < sint (toid env seq' t' n')"
    if "sint seq < sint seq'" for t n t' n'
  proof -
    have "sint (toid env seq t n) < (sint seq + 1) * 2 ^ (?tb + ?ob)"
      using low(2) [of t n] by (simp add: v algebra_simps)
    also have "\<dots> \<le> sint seq' * 2 ^ (?tb + ?ob)"
      using that by (intro mult_right_mono) simp_all
    also have "\<dots> \<le> sint (toid env seq' t' n')"
      using low(1) [of t' n'] by (simp add: v')
    finally show ?thesis .
  qed
  have 3: "sint (TransactionID out) < sint (OperationID out)"
    if "0 \<le> sint i" "sint i + 1 < 2 ^ ?ob"
  proof -
    from that have "uint (i + 1) mod 2 ^ ?ob = sint i + 1"
      by (simp add: toid_operation_field)
    with that show ?thesis by (simp add: ids v)
  qed
  from 1 2 3 show ?thesis by (simp add: ids ids')
qed


text \<open>
  The second and third operation of one transaction in ledger 5, and the first operation of
  a transaction in ledger 6, with the 32/20/12 identifier.
\<close>

theorem identifier_ordering_witness:
  "(\<exists>out out'. TransformOperation example_externals payment_X 1 (sponsoring_tx True) 5
                 = Returns (out, None)
        \<and> TransformOperation example_externals end_X 2 (sponsoring_tx True) 5
            = Returns (out', None)
        \<and> sint (OperationID out) < sint (OperationID out')
        \<and> sint (TransactionID out) < sint (OperationID out))
   \<and> (\<exists>out out'. TransformOperation example_externals end_X 2 (sponsoring_tx True) 5
                 = Returns (out, None)
        \<and> TransformOperation example_externals begin_X 0 (sponsoring_tx True) 6
            = Returns (out', None)
        \<and> sint (OperationID out) < sint (OperationID out')
        \<and> sint (TransactionID out) < sint (TransactionID out'))"
proof -
  have w: "toid_TransactionBits example_externals + toid_OperationBits example_externals \<le> 32"
    and b: "toid_OperationBits example_externals = 12"
    by (simp_all add: example_externals_def)
  have "succeeded (TransformOperation example_externals payment_X 1 (sponsoring_tx True) 5)"
    by code_simp
  then obtain p where p: "TransformOperation example_externals payment_X 1
      (sponsoring_tx True) 5 = Returns (p, None)"
    using succeeded_Returns by blast
  have "succeeded (TransformOperation example_externals end_X 2 (sponsoring_tx True) 5)"
    by code_simp
  then obtain e where e: "TransformOperation example_externals end_X 2
      (sponsoring_tx True) 5 = Returns (e, None)"
    using succeeded_Returns by blast
  have "succeeded (TransformOperation example_externals begin_X 0 (sponsoring_tx True) 6)"
    by code_simp
  then obtain g where g: "TransformOperation example_externals begin_X 0
      (sponsoring_tx True) 6 = Returns (g, None)"
    using succeeded_Returns by blast
  have s: "0 \<le> sint (5::int32)" "0 \<le> sint (6::int32)" "sint (5::int32) < sint (6::int32)"
    "0 \<le> sint (1::int32)" "sint (1::int32) < sint (2::int32)"
    "sint (2::int32) + 1 < 2 ^ 12" "sint (1::int32) + 1 < 2 ^ 12"
    by simp_all
  from identifier_ordering [OF w p e s(1) s(1)] s b
  have 1: "sint (OperationID p) < sint (OperationID e)"
    "sint (TransactionID p) < sint (OperationID p)" by simp_all
  from identifier_ordering [OF w e g s(1) s(2)] s
  have 2: "sint (OperationID e) < sint (OperationID g)"
    "sint (TransactionID e) < sint (TransactionID g)" by simp_all
  from p e g 1 2 show ?thesis by blast
qed

end
